theory Spec2Isabelle
  imports Complex_Main
begin

section \<open>Stress detection on wearable sensor windows: a shallow embedding\<close>

text \<open>
  The development embeds the two feature-extraction paths of the repository:
  \<^item> the training path, \<^verbatim>\<open>extract_window_features\<close> of \<^verbatim>\<open>Model+Api/model CatBoost.py\<close>,
  \<^item> the inference path, \<^verbatim>\<open>extract_features_window\<close> and \<^verbatim>\<open>predict_stress\<close> of
    \<^verbatim>\<open>api.py\<close>.

  Conventions. A finite double is idealised as a real number: rounding and overflow are
  outside the model, the non-finite doubles are explicit constructors. Python
  exceptions are values of \<open>py_error\<close>; a function that can raise returns
  \<open>py_error + 'a\<close>. A Python dict is an association list in insertion order. The two
  library routines whose numerical content the repository does not define
  (\<^verbatim>\<open>scipy.signal.welch\<close> and \<^verbatim>\<open>scipy.signal.find_peaks\<close>) are parameters, collected
  in the record \<open>sci_lib\<close>; the elementary numpy, pandas and scipy.stats reductions are
  written out from their documented formulas.
\<close>

subsection \<open>Python values, errors and containers\<close>

datatype py_error = ValueError | ZeroDivisionError | IndexError | KeyError | LibraryError

datatype f64 = Num real | PInf | NInf | NaN

fun isnan :: "f64 \<Rightarrow> bool" where
  "isnan NaN = True"
| "isnan _ = False"

fun isinf :: "f64 \<Rightarrow> bool" where
  "isinf PInf = True"
| "isinf NInf = True"
| "isinf _ = False"

text \<open>The finite values of an array, when all of its entries are finite.\<close>

fun reals_of :: "f64 list \<Rightarrow> real list option" where
  "reals_of [] = Some []"
| "reals_of (Num r # vs) = (case reals_of vs of None \<Rightarrow> None | Some rs \<Rightarrow> Some (r # rs))"
| "reals_of (_ # vs) = None"

fun f_sq :: "f64 \<Rightarrow> f64" where
  "f_sq (Num a) = Num (a * a)"
| "f_sq NaN = NaN"
| "f_sq _ = PInf"

fun f_add :: "f64 \<Rightarrow> f64 \<Rightarrow> f64" where
  "f_add (Num a) (Num b) = Num (a + b)"
| "f_add NaN _ = NaN"
| "f_add _ NaN = NaN"
| "f_add PInf NInf = NaN"
| "f_add NInf PInf = NaN"
| "f_add PInf _ = PInf"
| "f_add _ PInf = PInf"
| "f_add NInf _ = NInf"
| "f_add _ NInf = NInf"

fun f_sqrt :: "f64 \<Rightarrow> f64" where
  "f_sqrt (Num a) = (if a < 0 then NaN else Num (sqrt a))"
| "f_sqrt PInf = PInf"
| "f_sqrt _ = NaN"

text \<open>numpy's true division: a zero divisor gives an infinity or NaN, never an exception.\<close>

fun f_div :: "f64 \<Rightarrow> f64 \<Rightarrow> f64" where
  "f_div (Num a) (Num b) =
     (if b \<noteq> 0 then Num (a / b) else if a = 0 then NaN else if 0 < a then PInf else NInf)"
| "f_div NaN _ = NaN"
| "f_div _ NaN = NaN"
| "f_div (Num a) _ = Num 0"
| "f_div PInf (Num b) = (if 0 \<le> b then PInf else NInf)"
| "f_div NInf (Num b) = (if 0 \<le> b then NInf else PInf)"
| "f_div _ _ = NaN"

text \<open>Python's \<^verbatim>\<open>/\<close> on a float and an int: a zero divisor raises.\<close>

definition py_truediv :: "real \<Rightarrow> real \<Rightarrow> py_error + real" where
  "py_truediv a b = (if b = 0 then Inl ZeroDivisionError else Inr (a / b))"

text \<open>Python's \<^verbatim>\<open>int(x)\<close> on a float truncates towards zero.\<close>

definition py_int :: "real \<Rightarrow> int" where
  "py_int x = (if 0 \<le> x then \<lfloor>x\<rfloor> else \<lceil>x\<rceil>)"

text \<open>\<^verbatim>\<open>xs[a:b]\<close>: negative bounds count from the end, all bounds are clipped.\<close>

definition py_slice :: "'a list \<Rightarrow> int \<Rightarrow> int \<Rightarrow> 'a list" where
  "py_slice xs a b =
     (let n = int (length xs);
          a' = (if a < 0 then max (a + n) 0 else min a n);
          b' = (if b < 0 then max (b + n) 0 else min b n)
      in take (nat (b' - a')) (drop (nat a') xs))"

text \<open>\<^verbatim>\<open>range(start, stop, step)\<close>; a zero step raises \<^verbatim>\<open>ValueError\<close>.\<close>

function py_range_up :: "int \<Rightarrow> int \<Rightarrow> int \<Rightarrow> int list" where
  "py_range_up i stop step =
     (if 0 < step \<and> i < stop then i # py_range_up (i + step) stop step else [])"
  by pat_completeness auto
termination
  by (relation "measure (\<lambda>(i, stop, step). nat (stop - i))") auto

function py_range_down :: "int \<Rightarrow> int \<Rightarrow> int \<Rightarrow> int list" where
  "py_range_down i stop step =
     (if step < 0 \<and> stop < i then i # py_range_down (i + step) stop step else [])"
  by pat_completeness auto
termination
  by (relation "measure (\<lambda>(i, stop, step). nat (i - stop))") auto

definition py_range :: "int \<Rightarrow> int \<Rightarrow> int \<Rightarrow> py_error + int list" where
  "py_range start stop step =
     (if step = 0 then Inl ValueError
      else if 0 < step then Inr (py_range_up start stop step)
      else Inr (py_range_down start stop step))"

text \<open>Dicts: \<^verbatim>\<open>d[k] = v\<close>, \<^verbatim>\<open>d.update(items)\<close>, \<^verbatim>\<open>d[k]\<close> and \<^verbatim>\<open>k in d\<close>.\<close>

type_synonym row = "(string \<times> f64) list"

fun dict_set :: "('k \<times> 'v) list \<Rightarrow> 'k \<Rightarrow> 'v \<Rightarrow> ('k \<times> 'v) list" where
  "dict_set [] k v = [(k, v)]"
| "dict_set ((k', v') # d) k v =
     (if k' = k then (k, v) # d else (k', v') # dict_set d k v)"

fun dict_update :: "('k \<times> 'v) list \<Rightarrow> ('k \<times> 'v) list \<Rightarrow> ('k \<times> 'v) list" where
  "dict_update d [] = d"
| "dict_update d ((k, v) # kvs) = dict_update (dict_set d k v) kvs"

definition dict_get :: "('k \<times> 'v) list \<Rightarrow> 'k \<Rightarrow> py_error + 'v" where
  "dict_get d k = (case map_of d k of None \<Rightarrow> Inl KeyError | Some v \<Rightarrow> Inr v)"

definition dict_has :: "('k \<times> 'v) list \<Rightarrow> 'k \<Rightarrow> bool" where
  "dict_has d k = (map_of d k \<noteq> None)"

text \<open>
  Elementwise numpy arithmetic on two one-dimensional arrays: equal lengths pair up, an
  array of length one is broadcast, any other pair of lengths raises.
\<close>

definition np_broadcast :: "('a \<Rightarrow> 'a \<Rightarrow> 'a) \<Rightarrow> 'a list \<Rightarrow> 'a list \<Rightarrow> py_error + 'a list" where
  "np_broadcast f xs ys =
     (if length xs = length ys then Inr (map2 f xs ys)
      else if length xs = 1 then Inr (map (f (hd xs)) ys)
      else if length ys = 1 then Inr (map (\<lambda>x. f x (hd ys)) xs)
      else Inl ValueError)"

text \<open>\<^verbatim>\<open>arr[idx]\<close> with an integer index array.\<close>

definition np_take :: "'a list \<Rightarrow> nat list \<Rightarrow> py_error + 'a list" where
  "np_take xs idx =
     (if list_all (\<lambda>i. i < length xs) idx then Inr (map (\<lambda>i. xs ! i) idx) else Inl IndexError)"

subsection \<open>numpy reductions on finite arrays\<close>

definition np_mean :: "real list \<Rightarrow> f64" where
  "np_mean xs = (if xs = [] then NaN else Num (sum_list xs / real (length xs)))"

text \<open>The sum of the \<open>p\<close>-th powers of the deviations from the arithmetic mean.\<close>

definition dev_sum :: "nat \<Rightarrow> real list \<Rightarrow> real" where
  "dev_sum p xs =
     (let m = sum_list xs / real (length xs) in sum_list (map (\<lambda>x. (x - m) ^ p) xs))"

text \<open>\<^verbatim>\<open>np.std\<close>: \<^verbatim>\<open>ddof=0\<close>, the divisor is the number of samples.\<close>

definition np_std :: "real list \<Rightarrow> f64" where
  "np_std xs = (if xs = [] then NaN else Num (sqrt (dev_sum 2 xs / real (length xs))))"

definition np_min :: "real list \<Rightarrow> py_error + real" where
  "np_min xs = (case xs of [] \<Rightarrow> Inl ValueError | x # r \<Rightarrow> Inr (fold min r x))"

definition np_max :: "real list \<Rightarrow> py_error + real" where
  "np_max xs = (case xs of [] \<Rightarrow> Inl ValueError | x # r \<Rightarrow> Inr (fold max r x))"

definition np_median :: "real list \<Rightarrow> f64" where
  "np_median xs =
     (let s = sort xs; n = length xs in
      if n = 0 then NaN
      else if n mod 2 = 1 then Num (s ! (n div 2))
      else Num ((s ! (n div 2 - 1) + s ! (n div 2)) / 2))"

definition np_diff :: "real list \<Rightarrow> real list" where
  "np_diff xs = map2 (\<lambda>a b. b - a) xs (tl xs)"

definition np_diff_idx :: "nat list \<Rightarrow> int list" where
  "np_diff_idx ps = map2 (\<lambda>a b. int b - int a) ps (tl ps)"

fun np_cumsum_from :: "real \<Rightarrow> real list \<Rightarrow> real list" where
  "np_cumsum_from acc [] = []"
| "np_cumsum_from acc (x # xs) = (acc + x) # np_cumsum_from (acc + x) xs"

definition np_cumsum :: "real list \<Rightarrow> real list" where
  "np_cumsum xs = np_cumsum_from 0 xs"

text \<open>\<^verbatim>\<open>np.linspace(a, b, k)\<close> with the end point included.\<close>

definition np_linspace :: "real \<Rightarrow> real \<Rightarrow> nat \<Rightarrow> real list" where
  "np_linspace a b k =
     (if k = 1 then [a] else map (\<lambda>i. a + real i * ((b - a) / real (k - 1))) [0..<k])"

text \<open>
  \<^verbatim>\<open>np.interp(x, xp, fp)\<close> for increasing sample points \<open>xp\<close>: constant outside the sample
  range, linear between neighbouring sample points. No sample points raise.
\<close>

fun interp_at :: "(real \<times> real) list \<Rightarrow> real \<Rightarrow> real" where
  "interp_at [] x = 0"
| "interp_at [(x0, y0)] x = y0"
| "interp_at ((x0, y0) # (x1, y1) # r) x =
     (if x \<le> x0 then y0
      else if x < x1 then y0 + (y1 - y0) / (x1 - x0) * (x - x0)
      else interp_at ((x1, y1) # r) x)"

definition np_interp :: "real list \<Rightarrow> real list \<Rightarrow> real list \<Rightarrow> py_error + real list" where
  "np_interp xs xp fp =
     (if xp = [] \<or> length xp \<noteq> length fp then Inl ValueError
      else Inr (map (interp_at (zip xp fp)) xs))"

subsection \<open>pandas \<^verbatim>\<open>Series\<close> reductions on finite arrays\<close>

definition pd_mean :: "real list \<Rightarrow> f64" where
  "pd_mean xs = (if xs = [] then NaN else Num (sum_list xs / real (length xs)))"

text \<open>\<^verbatim>\<open>Series.std\<close>: \<^verbatim>\<open>ddof=1\<close>, the divisor is one less than the number of samples.\<close>

definition pd_std :: "real list \<Rightarrow> f64" where
  "pd_std xs =
     (if length xs < 2 then NaN else Num (sqrt (dev_sum 2 xs / (real (length xs) - 1))))"

definition pd_min :: "real list \<Rightarrow> f64" where
  "pd_min xs = (case xs of [] \<Rightarrow> NaN | x # r \<Rightarrow> Num (fold min r x))"

definition pd_max :: "real list \<Rightarrow> f64" where
  "pd_max xs = (case xs of [] \<Rightarrow> NaN | x # r \<Rightarrow> Num (fold max r x))"

definition pd_median :: "real list \<Rightarrow> f64" where
  "pd_median xs = np_median xs"

text \<open>
  \<^verbatim>\<open>Series.skew\<close> (pandas \<^verbatim>\<open>nanskew\<close>): with \<open>m2\<close>, \<open>m3\<close> the sums of squared and cubed
  deviations, \<^verbatim>\<open>(n * (n-1)**0.5 / (n-2)) * (m3 / m2**1.5)\<close>; zero when \<open>m2\<close> is zero, NaN
  below three samples.
\<close>

definition pd_skew :: "real list \<Rightarrow> f64" where
  "pd_skew xs =
     (let n = real (length xs); m2 = dev_sum 2 xs; m3 = dev_sum 3 xs in
      if length xs < 3 then NaN
      else if m2 = 0 then Num 0
      else Num ((n * sqrt (n - 1) / (n - 2)) * (m3 / (m2 * sqrt m2))))"

text \<open>
  \<^verbatim>\<open>Series.kurt\<close> (pandas \<^verbatim>\<open>nankurt\<close>): with \<open>m2\<close>, \<open>m4\<close> the sums of squared and fourth-power
  deviations, \<^verbatim>\<open>n*(n+1)*(n-1)*m4 / ((n-2)*(n-3)*m2**2) - 3*(n-1)**2 / ((n-2)*(n-3))\<close>; zero
  when the denominator is zero, NaN below four samples.
\<close>

definition pd_kurt :: "real list \<Rightarrow> f64" where
  "pd_kurt xs =
     (let n = real (length xs); m2 = dev_sum 2 xs; m4 = dev_sum 4 xs;
          adj = 3 * (n - 1) ^ 2 / ((n - 2) * (n - 3));
          numerator = n * (n + 1) * (n - 1) * m4;
          denominator = (n - 2) * (n - 3) * m2 ^ 2 in
      if length xs < 4 then NaN
      else if denominator = 0 then Num 0
      else Num (numerator / denominator - adj))"

text \<open>
  \<^verbatim>\<open>Series.mode\<close>: the most frequent values in ascending order; the source reads
  \<^verbatim>\<open>.iloc[0]\<close>, the smallest of them.
\<close>

definition pd_mode :: "int list \<Rightarrow> int list" where
  "pd_mode xs =
     sort (remdups (filter (\<lambda>v. list_all (\<lambda>w. count_list xs w \<le> count_list xs v) xs) xs))"

subsection \<open>\<^verbatim>\<open>scipy.stats\<close> with its defaults\<close>

text \<open>
  \<^verbatim>\<open>skew(a)\<close> with \<^verbatim>\<open>bias=True\<close>: \<open>m3 / m2 ** 1.5\<close> on the central moments (divisor \<open>n\<close>);
  \<^verbatim>\<open>kurtosis(a)\<close> with \<^verbatim>\<open>fisher=True, bias=True\<close>: \<open>m4 / m2 ** 2 - 3\<close>. Both are NaN on an
  empty or constant array.
\<close>

definition sp_skew :: "real list \<Rightarrow> f64" where
  "sp_skew xs =
     (let n = real (length xs); m2 = dev_sum 2 xs / n; m3 = dev_sum 3 xs / n in
      if xs = [] \<or> m2 = 0 then NaN else Num (m3 / (m2 * sqrt m2)))"

definition sp_kurtosis :: "real list \<Rightarrow> f64" where
  "sp_kurtosis xs =
     (let n = real (length xs); m2 = dev_sum 2 xs / n; m4 = dev_sum 4 xs / n in
      if xs = [] \<or> m2 = 0 then NaN else Num (m4 / m2 ^ 2 - 3))"

subsection \<open>The signal-processing library as a parameter\<close>

text \<open>
  \<open>welch arr fs\<close> stands for \<^verbatim>\<open>signal.welch(arr, fs=fs, nperseg=len(arr))\<close> and returns the
  pair \<^verbatim>\<open>(freqs, psd)\<close>; \<open>find_peaks arr d\<close> stands for
  \<^verbatim>\<open>signal.find_peaks(arr, distance=d)[0]\<close>. \<open>None\<close> is a raised exception.
\<close>

record sci_lib =
  welch :: "real list \<Rightarrow> real \<Rightarrow> (real list \<times> real list) option"
  find_peaks :: "real list \<Rightarrow> int \<Rightarrow> nat list option"

subsection \<open>\<^verbatim>\<open>bandpower\<close> (the same text in both source files)\<close>

text \<open>\<^verbatim>\<open>arr[mask]\<close> with a boolean mask of the same length.\<close>

definition mask_select :: "'a list \<Rightarrow> bool list \<Rightarrow> 'a list" where
  "mask_select xs m = map fst (filter snd (zip xs m))"

text \<open>\<^verbatim>\<open>trapezoid(y, x)\<close>: the sum of \<open>(x[i+1] - x[i]) * (y[i] + y[i+1]) / 2\<close>.\<close>

fun trapezoid :: "real list \<Rightarrow> real list \<Rightarrow> real" where
  "trapezoid (y0 # y1 # ys) (x0 # x1 # xs) =
     (x1 - x0) * (y0 + y1) / 2 + trapezoid (y1 # ys) (x1 # xs)"
| "trapezoid _ _ = 0"

definition bandpower :: "sci_lib \<Rightarrow> real list \<Rightarrow> real \<Rightarrow> real \<Rightarrow> real \<Rightarrow> py_error + real" where
  "bandpower lib arr fs low high =
     (case welch lib arr fs of
        None \<Rightarrow> Inl LibraryError
      | Some (freqs, psd) \<Rightarrow>
          let in_band = map (\<lambda>f. low \<le> f \<and> f \<le> high) freqs in
          if \<not> list_ex (\<lambda>b. b) in_band then Inr 0
          else if length psd \<noteq> length in_band then Inl IndexError
          else Inr (trapezoid (mask_select psd in_band) (mask_select freqs in_band)))"

subsection \<open>Training path: \<^verbatim>\<open>extract_window_features\<close>\<close>

definition DEFAULT_BVP_SR :: int where
  "DEFAULT_BVP_SR = 64"

definition ALLOWED_LABELS :: "int list" where
  "ALLOWED_LABELS = [0, 1]"

text \<open>The window enumeration of the loop header, paired with \<^verbatim>\<open>end = start + window_samples\<close>.\<close>

definition window_bounds :: "int \<Rightarrow> int \<Rightarrow> int \<Rightarrow> py_error + (int \<times> int) list" where
  "window_bounds n window_samples step_samples =
     (case py_range 0 (n - window_samples + 1) step_samples of
        Inl e \<Rightarrow> Inl e
      | Inr starts \<Rightarrow> Inr (map (\<lambda>start. (start, start + window_samples)) starts))"

definition stats_dict :: "real list \<Rightarrow> (string \<times> f64) list" where
  "stats_dict arr =
     [(''mean'', pd_mean arr), (''std'', pd_std arr), (''min'', pd_min arr),
      (''max'', pd_max arr), (''median'', pd_median arr), (''skew'', pd_skew arr),
      (''kurt'', pd_kurt arr)]"

text \<open>\<^verbatim>\<open>np.std\<close> of an array that may hold non-finite entries: NaN as soon as one is there.\<close>

definition np_std_f :: "f64 list \<Rightarrow> f64" where
  "np_std_f arr = (case reals_of arr of None \<Rightarrow> NaN | Some xs \<Rightarrow> np_std xs)"

definition valid :: "f64 list \<Rightarrow> bool" where
  "valid arr = (\<not> (list_ex isnan arr \<or> list_ex isinf arr \<or> np_std_f arr = Num 0))"

text \<open>The keys \<^verbatim>\<open>f"EDA_{k}"\<close> of the dict comprehension passed to \<^verbatim>\<open>row.update\<close>.\<close>

definition prefixed :: "string \<Rightarrow> (string \<times> 'v) list \<Rightarrow> (string \<times> 'v) list" where
  "prefixed p kvs = map (\<lambda>(k, v). (p @ k, v)) kvs"

text \<open>
  One pass through the loop body gives an exception, \<open>Inr None\<close> for \<^verbatim>\<open>continue\<close>, or the
  row built so far. \<open>and_then\<close> runs the next section of the body on that row.
\<close>

definition and_then ::
  "py_error + 'a option \<Rightarrow> ('a \<Rightarrow> py_error + 'b option) \<Rightarrow> py_error + 'b option" where
  "and_then r f = (case r of Inl e \<Rightarrow> Inl e | Inr None \<Rightarrow> Inr None | Inr (Some x) \<Rightarrow> f x)"

definition eda_features ::
  "sci_lib \<Rightarrow> int \<Rightarrow> (string \<times> f64 list) list \<Rightarrow> int \<Rightarrow> int \<Rightarrow> row \<Rightarrow> py_error + row option" where
  "eda_features lib sr signals start end row =
     (case map_of signals ''EDA'' of
        None \<Rightarrow> Inr (Some row)
      | Some channel \<Rightarrow>
          let eda_f = py_slice channel start end in
          if \<not> valid eda_f then Inr None
          else (case reals_of eda_f of
            None \<Rightarrow> Inr None
          | Some eda \<Rightarrow>
              let row = dict_update row (prefixed ''EDA_'' (stats_dict eda));
                  eda_diff = np_diff eda;
                  row = dict_set row ''EDA_diff_mean'' (np_mean eda_diff);
                  row = dict_set row ''EDA_diff_std'' (np_std eda_diff)
              in (case find_peaks lib eda (py_int (real_of_int sr * 0.5)) of
                None \<Rightarrow> Inl LibraryError
              | Some peaks \<Rightarrow>
                  let row = dict_set row ''EDA_peak_count'' (Num (real (length peaks))) in
                  (case (if length peaks > 0
                         then (case np_take eda peaks of
                                 Inl e \<Rightarrow> Inl e
                               | Inr amps \<Rightarrow> Inr (np_mean amps))
                         else Inr (Num 0)) of
                     Inl e \<Rightarrow> Inl e
                   | Inr amp \<Rightarrow>
                       let row = dict_set row ''EDA_peak_mean_amp'' amp in
                       (case bandpower lib eda (real_of_int sr) 0.01 0.1 of
                          Inl e \<Rightarrow> Inl e
                        | Inr lf \<Rightarrow>
                            let row = dict_set row ''EDA_LF'' (Num lf) in
                            (case bandpower lib eda (real_of_int sr) 0.1 0.25 of
                               Inl e \<Rightarrow> Inl e
                             | Inr hf \<Rightarrow>
                                 let row = dict_set row ''EDA_HF'' (Num hf);
                                     row = dict_set row ''EDA_LFHF''
                                             (if hf > 0 then Num (lf / hf) else Num 0)
                                 in Inr (Some row)))))))"

definition temp_features ::
  "(string \<times> f64 list) list \<Rightarrow> int \<Rightarrow> int \<Rightarrow> row \<Rightarrow> py_error + row option" where
  "temp_features signals start end row =
     (case map_of signals ''TEMP'' of
        None \<Rightarrow> Inr (Some row)
      | Some channel \<Rightarrow>
          let temp_f = py_slice channel start end in
          if \<not> valid temp_f then Inr None
          else (case reals_of temp_f of
            None \<Rightarrow> Inr None
          | Some temp \<Rightarrow>
              let row = dict_update row (prefixed ''TEMP_'' (stats_dict temp)) in
              if temp = [] then Inl IndexError
              else Inr (Some (dict_set row ''TEMP_slope''
                     (f_div (Num (last temp - hd temp)) (Num (real (length temp))))))))"

text \<open>\<^verbatim>\<open>np.sqrt(ax ** 2 + ay ** 2 + az ** 2)\<close> on arrays that may hold non-finite entries.\<close>

definition acc_magnitude :: "f64 list \<Rightarrow> f64 list \<Rightarrow> f64 list \<Rightarrow> py_error + f64 list" where
  "acc_magnitude ax ay az =
     (case np_broadcast f_add (map f_sq ax) (map f_sq ay) of
        Inl e \<Rightarrow> Inl e
      | Inr sxy \<Rightarrow>
          (case np_broadcast f_add sxy (map f_sq az) of
             Inl e \<Rightarrow> Inl e
           | Inr s \<Rightarrow> Inr (map f_sqrt s)))"

definition acc_features ::
  "(string \<times> f64 list) list \<Rightarrow> int \<Rightarrow> int \<Rightarrow> row \<Rightarrow> py_error + row option" where
  "acc_features signals start end row =
     (case (map_of signals ''ACC_x'', map_of signals ''ACC_y'', map_of signals ''ACC_z'') of
        (Some cx, Some cy, Some cz) \<Rightarrow>
          let ax = py_slice cx start end;
              ay = py_slice cy start end;
              az = py_slice cz start end
          in (case acc_magnitude ax ay az of
            Inl e \<Rightarrow> Inl e
          | Inr mag_f \<Rightarrow>
              if \<not> valid mag_f then Inr None
              else (case reals_of mag_f of
                None \<Rightarrow> Inr None
              | Some mag \<Rightarrow>
                  let row = dict_update row (prefixed ''ACC_mag_'' (stats_dict mag)) in
                  Inr (Some (dict_set row ''ACC_energy''
                    (f_div (Num (sum_list (map (\<lambda>m. m ^ 2) mag))) (Num (real (length mag))))))))
      | _ \<Rightarrow> Inr (Some row))"

text \<open>\<^verbatim>\<open>ibi = np.diff(peaks) / DEFAULT_BVP_SR\<close> (the inference path divides by \<^verbatim>\<open>64.0\<close>).\<close>

definition ibi_of_peaks :: "nat list \<Rightarrow> real list" where
  "ibi_of_peaks peaks = map (\<lambda>d. real_of_int d / real_of_int DEFAULT_BVP_SR) (np_diff_idx peaks)"

definition rmssd_of :: "real list \<Rightarrow> f64" where
  "rmssd_of rr_diff =
     (if length rr_diff > 0 then f_sqrt (np_mean (map (\<lambda>d. d ^ 2) rr_diff)) else Num 0)"

text \<open>\<^verbatim>\<open>np.sum(np.abs(rr_diff) > 0.05)\<close>.\<close>

definition nn50_of :: "real list \<Rightarrow> nat" where
  "nn50_of rr_diff = length (filter (\<lambda>d. \<bar>d\<bar> > 0.05) rr_diff)"

text \<open>Training: \<^verbatim>\<open>pnn50 = nn50 / len(rr_diff) if len(rr_diff) > 0 else 0\<close>, a numpy division.\<close>

definition pnn50_train :: "real list \<Rightarrow> f64" where
  "pnn50_train rr_diff =
     (if length rr_diff > 0
      then f_div (Num (real (nn50_of rr_diff))) (Num (real (length rr_diff)))
      else Num 0)"

text \<open>The uniform resampling of the inter-beat intervals, common to both \<^verbatim>\<open>try\<close> blocks.\<close>

definition ibi_resampled :: "real list \<Rightarrow> py_error + real list" where
  "ibi_resampled ibi =
     (let times = np_cumsum ibi in
      if times = [] then Inl IndexError
      else np_interp (np_linspace (hd times) (last times) (length times)) times ibi)"

text \<open>The body of the training path's \<^verbatim>\<open>try\<close> block.\<close>

definition hrv_bands_train :: "sci_lib \<Rightarrow> real list \<Rightarrow> py_error + real \<times> real \<times> real" where
  "hrv_bands_train lib ibi =
     (case ibi_resampled ibi of
        Inl e \<Rightarrow> Inl e
      | Inr ibi_interp \<Rightarrow>
          (case bandpower lib ibi_interp 4 0.04 0.15 of
             Inl e \<Rightarrow> Inl e
           | Inr LF \<Rightarrow>
               (case bandpower lib ibi_interp 4 0.15 0.4 of
                  Inl e \<Rightarrow> Inl e
                | Inr HF \<Rightarrow> Inr (LF, HF, if HF > 0 then LF / HF else 0))))"

text \<open>
  The seven values \<^verbatim>\<open>hr, sdnn, rmssd, pnn50, LF, HF, LFHF\<close> of the training path, in the
  order in which they are stored in the row.
\<close>

definition hrv_train :: "sci_lib \<Rightarrow> nat list \<Rightarrow> (string \<times> f64) list" where
  "hrv_train lib peaks =
     (if length peaks > 1 then
        let ibi = ibi_of_peaks peaks;
            rr_diff = np_diff ibi;
            hr = f_div (Num 60) (np_mean ibi);
            sdnn = np_std ibi;
            rmssd = rmssd_of rr_diff;
            pnn50 = pnn50_train rr_diff;
            bands = (case hrv_bands_train lib ibi of Inl e \<Rightarrow> (0, 0, 0) | Inr t \<Rightarrow> t)
        in [(''HR_mean'', hr), (''HRV_SDNN'', sdnn), (''HRV_RMSSD'', rmssd),
            (''HRV_pNN50'', pnn50), (''HRV_LF'', Num (fst bands)),
            (''HRV_HF'', Num (fst (snd bands))), (''HRV_LFHF'', Num (snd (snd bands)))]
      else
        [(''HR_mean'', Num 0), (''HRV_SDNN'', Num 0), (''HRV_RMSSD'', Num 0),
         (''HRV_pNN50'', Num 0), (''HRV_LF'', Num 0), (''HRV_HF'', Num 0),
         (''HRV_LFHF'', Num 0)])"

definition bvp_features ::
  "sci_lib \<Rightarrow> (string \<times> f64 list) list \<Rightarrow> int \<Rightarrow> int \<Rightarrow> row \<Rightarrow> py_error + row option" where
  "bvp_features lib signals start end row =
     (case map_of signals ''BVP'' of
        None \<Rightarrow> Inr (Some row)
      | Some channel \<Rightarrow>
          let bvp_start = start * 2;
              bvp_end = end * 2;
              bvp_f = py_slice channel bvp_start bvp_end
          in if \<not> valid bvp_f then Inr None
          else (case reals_of bvp_f of
            None \<Rightarrow> Inr None
          | Some bvp \<Rightarrow>
              let row = dict_update row (prefixed ''BVP_'' (stats_dict bvp)) in
              (case find_peaks lib bvp (py_int (real_of_int DEFAULT_BVP_SR * 0.3)) of
                 None \<Rightarrow> Inl LibraryError
               | Some peaks \<Rightarrow> Inr (Some (dict_update row (hrv_train lib peaks))))))"

text \<open>
  Label alignment and the final \<^verbatim>\<open>if "label" in row\<close>: \<open>Some row\<close> is a row appended to
  \<^verbatim>\<open>features\<close>, \<open>None\<close> a window that leaves no row.
\<close>

definition label_alignment ::
  "int list \<Rightarrow> real \<Rightarrow> int \<Rightarrow> int \<Rightarrow> int \<Rightarrow> row \<Rightarrow> py_error + row option" where
  "label_alignment chest_labels scale chest_len start end row =
     (let c_start = py_int (real_of_int start * scale);
          c_end = min (py_int (real_of_int end * scale)) chest_len;
          lbl = py_slice chest_labels c_start c_end
      in (case (if length lbl > 0
                then (case pd_mode lbl of
                        [] \<Rightarrow> Inl IndexError
                      | m # _ \<Rightarrow>
                          Inr (if m \<in> set ALLOWED_LABELS
                               then dict_set row ''label'' (Num (real_of_int m)) else row))
                else Inr row) of
            Inl e \<Rightarrow> Inl e
          | Inr row \<Rightarrow> Inr (if dict_has row ''label'' then Some row else None)))"

definition window_row ::
  "sci_lib \<Rightarrow> (string \<times> f64 list) list \<Rightarrow> int list \<Rightarrow> int \<Rightarrow> real \<Rightarrow> int \<Rightarrow>
   int \<times> int \<Rightarrow> py_error + row option" where
  "window_row lib signals chest_labels sr scale chest_len bounds =
     (let start = fst bounds; end = snd bounds in
      and_then (and_then (and_then (and_then
        (eda_features lib sr signals start end [])
        (temp_features signals start end))
        (acc_features signals start end))
        (bvp_features lib signals start end))
        (label_alignment chest_labels scale chest_len start end))"




text \<open>
  The columns of \<^verbatim>\<open>pd.DataFrame(all_rows).dropna().reset_index()\<close> in \<^verbatim>\<open>main\<close>: the
  \<^verbatim>\<open>index\<close> column, then the keys of a row in insertion order; \<^verbatim>\<open>X\<close> drops \<^verbatim>\<open>label\<close>.
\<close>

definition train_columns :: "row \<Rightarrow> string list" where
  "train_columns row = ''index'' # map fst row"

definition train_X_columns :: "row \<Rightarrow> string list" where
  "train_X_columns row = filter (\<lambda>c. c \<noteq> ''label'') (train_columns row)"

subsection \<open>Inference path: \<^verbatim>\<open>extract_features_window\<close>\<close>

definition bind_err :: "py_error + 'a \<Rightarrow> ('a \<Rightarrow> py_error + 'b) \<Rightarrow> py_error + 'b" where
  "bind_err r f = (case r of Inl e \<Rightarrow> Inl e | Inr x \<Rightarrow> f x)"

text \<open>
  The seven assignments \<^verbatim>\<open>row["P_mean"] = float(np.mean(a))\<close>, ...,
  \<^verbatim>\<open>row["P_kurt"] = float(kurtosis(a))\<close> that the source writes out for each of the
  prefixes \<^verbatim>\<open>EDA_\<close>, \<^verbatim>\<open>TEMP_\<close>, \<^verbatim>\<open>ACC_mag_\<close> and \<^verbatim>\<open>BVP_\<close>.
\<close>

definition summary_assignments :: "string \<Rightarrow> real list \<Rightarrow> row \<Rightarrow> py_error + row" where
  "summary_assignments p a row =
     (let row = dict_set row (p @ ''mean'') (np_mean a);
          row = dict_set row (p @ ''std'') (np_std a)
      in bind_err (np_min a) (\<lambda>mn.
         let row = dict_set row (p @ ''min'') (Num mn) in
         bind_err (np_max a) (\<lambda>mx.
         let row = dict_set row (p @ ''max'') (Num mx);
             row = dict_set row (p @ ''median'') (np_median a);
             row = dict_set row (p @ ''skew'') (sp_skew a);
             row = dict_set row (p @ ''kurt'') (sp_kurtosis a)
         in Inr row)))"

definition infer_eda :: "sci_lib \<Rightarrow> (string \<times> real list) list \<Rightarrow> row \<Rightarrow> py_error + row" where
  "infer_eda lib signals row =
     bind_err (dict_get signals ''EDA'') (\<lambda>eda.
     bind_err (summary_assignments ''EDA_'' eda row) (\<lambda>row.
       let eda_diff = np_diff eda;
           row = dict_set row ''EDA_diff_mean'' (np_mean eda_diff);
           row = dict_set row ''EDA_diff_std'' (np_std eda_diff)
       in (case find_peaks lib eda 16 of
         None \<Rightarrow> Inl LibraryError
       | Some peaks \<Rightarrow>
           let row = dict_set row ''EDA_peak_count'' (Num (real (length peaks))) in
           bind_err (if length peaks \<noteq> 0
                     then bind_err (np_take eda peaks) (\<lambda>amps. Inr (np_mean amps))
                     else Inr (Num 0)) (\<lambda>amp.
           let row = dict_set row ''EDA_peak_mean_amp'' amp in
           bind_err (bandpower lib eda 32 0.01 0.1) (\<lambda>lf.
           let row = dict_set row ''EDA_LF'' (Num lf) in
           bind_err (bandpower lib eda 32 0.1 0.25) (\<lambda>hf.
           let row = dict_set row ''EDA_HF'' (Num hf) in
           Inr (dict_set row ''EDA_LFHF'' (if hf \<noteq> 0 then Num (lf / hf) else Num 0))))))))"

definition infer_temp :: "(string \<times> real list) list \<Rightarrow> row \<Rightarrow> py_error + row" where
  "infer_temp signals row =
     bind_err (dict_get signals ''TEMP'') (\<lambda>temp.
     bind_err (summary_assignments ''TEMP_'' temp row) (\<lambda>row.
       if temp = [] then Inl IndexError
       else bind_err (py_truediv (last temp - hd temp) (real (length temp))) (\<lambda>slope.
            Inr (dict_set row ''TEMP_slope'' (Num slope)))))"

definition infer_acc :: "(string \<times> real list) list \<Rightarrow> row \<Rightarrow> py_error + row" where
  "infer_acc signals row =
     bind_err (dict_get signals ''ACC_x'') (\<lambda>ax.
     bind_err (dict_get signals ''ACC_y'') (\<lambda>ay.
     bind_err (dict_get signals ''ACC_z'') (\<lambda>az.
     bind_err (np_broadcast (+) (map (\<lambda>v. v ^ 2) ax) (map (\<lambda>v. v ^ 2) ay)) (\<lambda>sxy.
     bind_err (np_broadcast (+) sxy (map (\<lambda>v. v ^ 2) az)) (\<lambda>s.
       let mag = map sqrt s in
       bind_err (summary_assignments ''ACC_mag_'' mag row) (\<lambda>row.
         Inr (dict_set row ''ACC_energy''
           (f_div (Num (sum_list (map (\<lambda>m. m ^ 2) mag))) (Num (real (length mag)))))))))))"

text \<open>
  Inference: \<^verbatim>\<open>float(np.sum(np.abs(rr_diff) > 0.05)) / len(rr_diff) if len(rr_diff) else 0.0\<close>,
  a Python division of a float by an int.
\<close>

definition pnn50_infer :: "real list \<Rightarrow> py_error + f64" where
  "pnn50_infer rr_diff =
     (if length rr_diff \<noteq> 0
      then bind_err (py_truediv (real (nn50_of rr_diff)) (real (length rr_diff)))
             (\<lambda>q. Inr (Num q))
      else Inr (Num 0))"

text \<open>
  The inference path's \<^verbatim>\<open>try\<close> block: an exception raised after \<^verbatim>\<open>HRV_LF\<close> was stored
  still ends in the handler, which resets all three entries.
\<close>

definition hrv_bands_infer :: "sci_lib \<Rightarrow> real list \<Rightarrow> py_error + real \<times> real \<times> real" where
  "hrv_bands_infer lib ibi =
     bind_err (ibi_resampled ibi) (\<lambda>ibi_interp.
     bind_err (bandpower lib ibi_interp 4 0.04 0.15) (\<lambda>LF.
     bind_err (bandpower lib ibi_interp 4 0.15 0.40) (\<lambda>HF.
       Inr (LF, HF, if HF \<noteq> 0 then LF / HF else 0))))"

definition hrv_infer :: "sci_lib \<Rightarrow> nat list \<Rightarrow> row \<Rightarrow> py_error + row" where
  "hrv_infer lib peaks row =
     (if length peaks > 1 then
        let ibi = map (\<lambda>d. real_of_int d / 64) (np_diff_idx peaks);
            rr_diff = np_diff ibi;
            row = dict_set row ''HR_mean'' (f_div (Num 60) (np_mean ibi));
            row = dict_set row ''HRV_SDNN'' (np_std ibi);
            row = dict_set row ''HRV_RMSSD''
                    (if length rr_diff \<noteq> 0
                     then f_sqrt (np_mean (map (\<lambda>d. d ^ 2) rr_diff)) else Num 0)
        in bind_err (pnn50_infer rr_diff) (\<lambda>pnn50.
           let row = dict_set row ''HRV_pNN50'' pnn50;
               bands = (case hrv_bands_infer lib ibi of Inl e \<Rightarrow> (0, 0, 0) | Inr t \<Rightarrow> t)
           in Inr (dict_update row
                [(''HRV_LF'', Num (fst bands)), (''HRV_HF'', Num (fst (snd bands))),
                 (''HRV_LFHF'', Num (snd (snd bands)))]))
      else
        Inr (dict_update row
          (map (\<lambda>k. (k, Num 0))
             [''HR_mean'', ''HRV_SDNN'', ''HRV_RMSSD'', ''HRV_pNN50'', ''HRV_LF'', ''HRV_HF'',
              ''HRV_LFHF''])))"

definition infer_bvp :: "sci_lib \<Rightarrow> (string \<times> real list) list \<Rightarrow> row \<Rightarrow> py_error + row" where
  "infer_bvp lib signals row =
     bind_err (dict_get signals ''BVP'') (\<lambda>bvp.
     bind_err (summary_assignments ''BVP_'' bvp row) (\<lambda>row.
       (case find_peaks lib bvp 20 of
          None \<Rightarrow> Inl LibraryError
        | Some peaks \<Rightarrow> hrv_infer lib peaks row)))"

definition extract_features_window ::
  "sci_lib \<Rightarrow> (string \<times> real list) list \<Rightarrow> py_error + row" where
  "extract_features_window lib signals =
     bind_err (infer_eda lib signals []) (\<lambda>row.
     bind_err (infer_temp signals row) (\<lambda>row.
     bind_err (infer_acc signals row) (\<lambda>row.
     infer_bvp lib signals row)))"

subsection \<open>Inference path: \<^verbatim>\<open>generate_advice\<close> and \<^verbatim>\<open>predict_stress\<close>\<close>

text \<open>Comparisons of a double with a finite constant; every comparison with NaN is false.\<close>

fun f_gt :: "f64 \<Rightarrow> real \<Rightarrow> bool" where
  "f_gt (Num a) b = (a > b)"
| "f_gt PInf b = True"
| "f_gt _ b = False"

fun f_lt :: "f64 \<Rightarrow> real \<Rightarrow> bool" where
  "f_lt (Num a) b = (a < b)"
| "f_lt NInf b = True"
| "f_lt _ b = False"

text \<open>\<^verbatim>\<open>" ".join(messages)\<close>.\<close>

fun join_space :: "string list \<Rightarrow> string" where
  "join_space [] = []"
| "join_space [m] = m"
| "join_space (m # ms) = m @ '' '' @ join_space ms"

definition generate_advice :: "row \<Rightarrow> py_error + string" where
  "generate_advice features =
     bind_err (dict_get features ''HR_mean'') (\<lambda>hr.
     bind_err (dict_get features ''EDA_mean'') (\<lambda>eda.
     bind_err (dict_get features ''TEMP_mean'') (\<lambda>temp.
     bind_err (dict_get features ''ACC_mag_mean'') (\<lambda>acc.
     bind_err (dict_get features ''HRV_SDNN'') (\<lambda>hrv.
       let advice_messages =
             (if f_gt hr 100 then
                [''Your heart rate is elevated. Try taking slow, deep breaths or pausing for a short rest.'']
              else if f_lt hr 55 then
                [''Your heart rate seems low. If you feel sluggish, a brief walk or stretch may help.'']
              else []) @
             (if f_gt eda 5 then
                [''Skin conductance is high, which may indicate stress. A quick break or hydration may help.'']
              else if f_lt eda 0.5 then
                [''Your EDA is very low, suggesting a calm state.'']
              else []) @
             (if f_gt temp 37.7 then
                [''Your temperature is slightly elevated. Cooling down or drinking water may help.'']
              else if f_lt temp 35.5 then
                [''Your temperature is low. Consider warming up or moving gently.'']
              else []) @
             (if f_gt acc 120 then
                [''Movement level is high, which can reflect physical agitation. Try slowing your pace or sitting comfortably.'']
              else if f_lt acc 15 then
                [''Very low movement detected. If you'' @ [CHR 0x27] @ ''re tense or sitting still for long, consider stretching.'']
              else []) @
             (if f_lt hrv 0.03 then
                [''Your HRV is low, which may reflect reduced stress tolerance. A short relaxation exercise could help.'']
              else [])
       in Inr (join_space
            (if advice_messages = []
             then [''Everything looks stable. Keep up the good balance!'']
             else advice_messages)))))))"

record SensorInput =
  BVP :: real
  EDA :: real
  TEMP :: real
  ACC_x :: real
  ACC_y :: real
  ACC_z :: real

datatype response =
    Prediction string real string
  | Error py_error

text \<open>
  The column order that \<^verbatim>\<open>predict_stress\<close> imposes on the one-row frame before it calls
  the classifier.
\<close>

definition order :: "string list" where
  "order =
     [''index'',
      ''EDA_mean'', ''EDA_std'', ''EDA_min'', ''EDA_max'', ''EDA_median'', ''EDA_skew'', ''EDA_kurt'',
      ''EDA_diff_mean'', ''EDA_diff_std'',
      ''EDA_peak_count'', ''EDA_peak_mean_amp'',
      ''EDA_LF'', ''EDA_HF'', ''EDA_LFHF'',
      ''TEMP_mean'', ''TEMP_std'', ''TEMP_min'', ''TEMP_max'', ''TEMP_median'',
      ''TEMP_skew'', ''TEMP_kurt'', ''TEMP_slope'',
      ''ACC_mag_mean'', ''ACC_mag_std'', ''ACC_mag_min'', ''ACC_mag_max'',
      ''ACC_mag_median'', ''ACC_mag_skew'', ''ACC_mag_kurt'', ''ACC_energy'',
      ''BVP_mean'', ''BVP_std'', ''BVP_min'', ''BVP_max'', ''BVP_median'',
      ''BVP_skew'', ''BVP_kurt'',
      ''HR_mean'', ''HRV_SDNN'', ''HRV_RMSSD'', ''HRV_pNN50'',
      ''HRV_LF'', ''HRV_HF'', ''HRV_LFHF'']"

text \<open>\<^verbatim>\<open>x + c * np.random.randn(k)\<close>, where \<open>draw j i\<close> is entry \<open>i\<close> of the \<open>j\<close>-th array drawn.\<close>

definition perturbed :: "(nat \<Rightarrow> nat \<Rightarrow> real) \<Rightarrow> nat \<Rightarrow> real \<Rightarrow> real \<Rightarrow> nat \<Rightarrow> real list" where
  "perturbed draw j x c k = map (\<lambda>i. x + c * draw j i) [0..<k]"

text \<open>\<^verbatim>\<open>fillna(0)\<close> on one cell.\<close>

fun fillna0 :: "f64 \<Rightarrow> f64" where
  "fillna0 NaN = Num 0"
| "fillna0 v = v"

text \<open>
  \<open>predict_proba v\<close> stands for \<^verbatim>\<open>model.predict_proba(df)[0][1]\<close> on the one-row frame whose
  cells, in column order, are \<open>v\<close>; \<open>None\<close> is a raised exception. The whole body is inside
  \<^verbatim>\<open>try\<close>: every exception becomes the error response.
\<close>

definition predict_stress ::
  "sci_lib \<Rightarrow> (f64 list \<Rightarrow> real option) \<Rightarrow> (nat \<Rightarrow> nat \<Rightarrow> real) \<Rightarrow> SensorInput \<Rightarrow> response" where
  "predict_stress lib predict_proba draw input =
     (if 36.0 \<le> TEMP input \<and> TEMP input \<le> 37.5 \<and>
         EDA input \<le> 3.0 \<and>
         \<bar>ACC_x input\<bar> < 50 \<and>
         \<bar>ACC_y input\<bar> < 50 \<and>
         \<bar>ACC_z input\<bar> < 50
      then Prediction ''NOT STRESSED'' 0.0
             ''Your vital signs appear normal. Everything looks stable.''
      else
        let signals =
              [(''BVP'', perturbed draw 0 (BVP input) 0.01 384),
               (''EDA'', perturbed draw 1 (EDA input) 0.02 192),
               (''TEMP'', perturbed draw 2 (TEMP input) 0.005 192),
               (''ACC_x'', perturbed draw 3 (ACC_x input) 2 192),
               (''ACC_y'', perturbed draw 4 (ACC_y input) 2 192),
               (''ACC_z'', perturbed draw 5 (ACC_z input) 2 192)]
        in (case
              bind_err (extract_features_window lib signals) (\<lambda>features.
                let df = (''index'', Num 0) # map (\<lambda>(k, v). (k, fillna0 v)) features in
                bind_err (if list_all (dict_has df) order
                          then Inr (map (\<lambda>c. the (map_of df c)) order)
                          else Inl KeyError) (\<lambda>cells.
                (case predict_proba cells of
                   None \<Rightarrow> Inl LibraryError
                 | Some proba \<Rightarrow>
                     let THRESH = 0.70;
                         status = (if proba \<ge> THRESH then ''STRESSED'' else ''NOT STRESSED'')
                     in bind_err (generate_advice features) (\<lambda>advice.
                          Inr (Prediction status proba advice)))))
            of Inl e \<Rightarrow> Error e | Inr r \<Rightarrow> r))"

subsection \<open>Reference formulas\<close>

text \<open>
  The number of windows as a closed formula: none when the signal is shorter than a window,
  otherwise \<open>\<lfloor>(n - window_samples) / step_samples\<rfloor> + 1\<close>.
\<close>

definition window_count :: "int \<Rightarrow> int \<Rightarrow> int \<Rightarrow> nat" where
  "window_count n window_samples step_samples =
     (if n < window_samples then 0 else nat ((n - window_samples) div step_samples + 1))"



text \<open>The feature names of each modality, in the order of the specification's schema.\<close>

definition eda_columns :: "string list" where
  "eda_columns =
     [''EDA_mean'', ''EDA_std'', ''EDA_min'', ''EDA_max'', ''EDA_median'', ''EDA_skew'',
      ''EDA_kurt'', ''EDA_diff_mean'', ''EDA_diff_std'', ''EDA_peak_count'',
      ''EDA_peak_mean_amp'', ''EDA_LF'', ''EDA_HF'', ''EDA_LFHF'']"

definition temp_columns :: "string list" where
  "temp_columns =
     [''TEMP_mean'', ''TEMP_std'', ''TEMP_min'', ''TEMP_max'', ''TEMP_median'', ''TEMP_skew'',
      ''TEMP_kurt'', ''TEMP_slope'']"

definition acc_columns :: "string list" where
  "acc_columns =
     [''ACC_mag_mean'', ''ACC_mag_std'', ''ACC_mag_min'', ''ACC_mag_max'', ''ACC_mag_median'',
      ''ACC_mag_skew'', ''ACC_mag_kurt'', ''ACC_energy'']"

definition bvp_columns :: "string list" where
  "bvp_columns =
     [''BVP_mean'', ''BVP_std'', ''BVP_min'', ''BVP_max'', ''BVP_median'', ''BVP_skew'',
      ''BVP_kurt'', ''HR_mean'', ''HRV_SDNN'', ''HRV_RMSSD'', ''HRV_pNN50'', ''HRV_LF'',
      ''HRV_HF'', ''HRV_LFHF'']"

text \<open>The schema of the specification: the row identifier, then the four groups.\<close>

definition schema :: "string list" where
  "schema = ''index'' # eda_columns @ temp_columns @ acc_columns @ bvp_columns"

subsection \<open>A small recording for worked examples\<close>

text \<open>
  Three base-rate samples per wrist channel, six BVP samples, one window \<open>[0, 3)\<close>. The
  \<open>ACC_y\<close> axis is constant. The library instance reports no peak and a two-bin spectrum.
\<close>

definition example_lib :: sci_lib where
  "example_lib =
     \<lparr>welch = (\<lambda>arr fs. Some ([0, fs / 2], [0, 1])), find_peaks = (\<lambda>arr d. Some [])\<rparr>"

definition example_window :: "(string \<times> real list) list" where
  "example_window =
     [(''EDA'', [1, 2, 4]), (''TEMP'', [36, 36.5, 37]), (''ACC_x'', [1, 0, 0]),
      (''ACC_y'', [0, 0, 0]), (''ACC_z'', [0, 1, 0]), (''BVP'', [1, 2, 3, 4, 5, 6])]"

definition example_signals :: "(string \<times> f64 list) list" where
  "example_signals = map (\<lambda>(k, xs). (k, map Num xs)) example_window"

text \<open>The keys of a dict after the assignment \<^verbatim>\<open>d[k] = v\<close>: a new key goes last.\<close>

definition keys_after_set :: "'k list \<Rightarrow> 'k \<Rightarrow> 'k list" where
  "keys_after_set ks k = (if k \<in> set ks then ks else ks @ [k])"

text \<open>
  The validity gate as the specification words it: a slice is invalid if it contains a NaN,
  contains an infinite value, or has zero variance (a zero mean squared deviation).
\<close>

definition invalid_slice :: "f64 list \<Rightarrow> bool" where
  "invalid_slice arr \<longleftrightarrow>
     list_ex isnan arr \<or> list_ex isinf arr \<or>
     (case reals_of arr of
        None \<Rightarrow> False
      | Some xs \<Rightarrow> xs \<noteq> [] \<and> dev_sum 2 xs / real (length xs) = 0)"


definition population_std :: "real list \<Rightarrow> real" where
  "population_std xs = sqrt (dev_sum 2 xs / real (length xs))"

definition sample_std :: "real list \<Rightarrow> real" where
  "sample_std xs = sqrt (dev_sum 2 xs / (real (length xs) - 1))"





subsection \<open>A reference instance of \<^verbatim>\<open>signal.welch\<close>\<close>

text \<open>
  With \<^verbatim>\<open>nperseg = len(arr)\<close> Welch's method has a single segment: the samples are detrended
  by their mean, tapered by the periodic Hann window, and the one-sided periodogram is
  scaled to a density, \<open>|X\<^sub>k|\<^sup>2 / (fs * \<Sum> w\<^sup>2)\<close>, doubled for every bin but the
  zero frequency and, for an even length, the Nyquist frequency. The bins are
  \<open>k * fs / n\<close> for \<open>k = 0, ..., \<lfloor>n / 2\<rfloor>\<close>. An empty input gives empty arrays.
\<close>

definition hann :: "nat \<Rightarrow> nat \<Rightarrow> real" where
  "hann n j = (if n = 1 then 1 else 1 / 2 - 1 / 2 * cos (2 * pi * real j / real n))"

text \<open>\<open>|X\<^sub>k|\<^sup>2\<close> of the discrete Fourier transform of \<open>y\<close>, from its real and imaginary part.\<close>

definition dft_power :: "real list \<Rightarrow> nat \<Rightarrow> real" where
  "dft_power y k =
     (let n = length y in
      (sum_list (map (\<lambda>j. y ! j * cos (2 * pi * real j * real k / real n)) [0..<n])) ^ 2 +
      (sum_list (map (\<lambda>j. y ! j * sin (2 * pi * real j * real k / real n)) [0..<n])) ^ 2)"

definition welch_periodogram :: "real list \<Rightarrow> real \<Rightarrow> (real list \<times> real list) option" where
  "welch_periodogram arr fs =
     (let n = length arr in
      if n = 0 then Some ([], [])
      else
        let mean = sum_list arr / real n;
            w = map (hann n) [0..<n];
            y = map2 (\<lambda>wj x. wj * (x - mean)) w arr;
            scale = fs * sum_list (map (\<lambda>wj. wj ^ 2) w);
            bins = [0..<n div 2 + 1]
        in Some (map (\<lambda>k. real k * fs / real n) bins,
                 map (\<lambda>k. (if k = 0 \<or> 2 * k = n then 1 else 2) * dft_power y k / scale) bins))"

definition periodogram_lib :: sci_lib where
  "periodogram_lib = \<lparr>welch = welch_periodogram, find_peaks = (\<lambda>arr d. None)\<rparr>"

section \<open>Properties\<close>

subsection \<open>Integer arithmetic and \<^verbatim>\<open>range\<close>\<close>

declare py_range_up.simps [simp del] py_range_down.simps [simp del]

lemma int_le_div: 
  assumes "0 < (s::int)"
  shows "k * s \<le> m \<longleftrightarrow> k \<le> m div s"
proof
  assume "k * s \<le> m"
  then have "(k * s) div s \<le> m div s" using assms by (rule zdiv_mono1)
  then show "k \<le> m div s" using assms by simp
next
  assume "k \<le> m div s"
  then have "k * s \<le> (m div s) * s" using assms by (simp add: mult_right_mono)
  moreover have "(m div s) * s + m mod s = m" by (rule div_mult_mod_eq)
  moreover have "0 \<le> m mod s" using assms by (rule pos_mod_sign)
  ultimately show "k * s \<le> m" by linarith
qed

lemma div_plus_step: "0 < (s::int) \<Longrightarrow> (a + s) div s = a div s + 1"
  by simp

lemma py_range_up_map:
  "0 < step \<Longrightarrow>
   py_range_up i stop step =
     map (\<lambda>k. i + int k * step) [0..<nat ((stop - i + step - 1) div step)]"
proof (induction i stop step rule: py_range_up.induct)
  case (1 i stop step)
  show ?case
  proof (cases "i < stop")
    case False
    then have "stop - i + step - 1 < step" by linarith
    then have "(stop - i + step - 1) div step < 1"
      using 1(2) by (metis int_le_div mult_1 not_le)
    with False 1 show ?thesis by (simp add: py_range_up.simps)
  next
    case True
    define m where "m = nat ((stop - i - 1) div step)"
    have nonneg: "0 \<le> (stop - i - 1) div step"
      using True 1(2) by (simp add: pos_imp_zdiv_nonneg_iff)
    have "(stop - i + step - 1) div step = ((stop - i - 1) + step) div step"
      by (simp add: algebra_simps)
    also have "\<dots> = (stop - i - 1) div step + 1"
      using 1(2) by (rule div_plus_step)
    finally have cnt: "nat ((stop - i + step - 1) div step) = Suc m"
      using nonneg by (simp add: m_def)
    have ih: "py_range_up (i + step) stop step = map (\<lambda>k. i + step + int k * step) [0..<m]"
      using 1(1) True 1(2) by (simp add: m_def algebra_simps)
    have "map (\<lambda>k. i + int k * step) [0..<Suc m] =
          i # map (\<lambda>k. i + int (Suc k) * step) [0..<m]"
      by (simp add: upt_conv_Cons map_Suc_upt [symmetric] del: upt_Suc)
    also have "\<dots> = i # map (\<lambda>k. i + step + int k * step) [0..<m]"
      by (simp add: algebra_simps)
    finally show ?thesis
      using True 1(2) ih cnt by (subst py_range_up.simps) simp
  qed
qed

subsection \<open>Window enumeration\<close>

lemma window_bounds_map:
  assumes "0 < step_samples"
  shows "window_bounds n window_samples step_samples =
           Inr (map (\<lambda>k. (int k * step_samples, int k * step_samples + window_samples))
                  [0..<window_count n window_samples step_samples])"
proof -
  have "(n - window_samples + 1 - 0 + step_samples - 1) div step_samples =
        ((n - window_samples) + step_samples) div step_samples"
    by (simp add: algebra_simps)
  also have "\<dots> = (n - window_samples) div step_samples + 1"
    using assms by (rule div_plus_step)
  finally have e: "(n - window_samples + 1 - 0 + step_samples - 1) div step_samples =
        (n - window_samples) div step_samples + 1" .
  have neg: "n < window_samples \<Longrightarrow> (n - window_samples) div step_samples + 1 \<le> 0"
    using assms by (simp add: div_neg_pos_less0 add1_zle_eq)
  show ?thesis
    using assms e neg
    by (simp add: window_bounds_def py_range_def py_range_up_map comp_def window_count_def)
qed

lemma window_count_iff:
  assumes "0 < step_samples"
  shows "int k * step_samples + window_samples \<le> n \<longleftrightarrow>
           k < window_count n window_samples step_samples"
proof (cases "n < window_samples")
  case True
  have "0 \<le> int k * step_samples" using assms by simp
  with True show ?thesis by (simp add: window_count_def)
next
  case False
  then have nn: "0 \<le> (n - window_samples) div step_samples"
    using assms by (simp add: pos_imp_zdiv_nonneg_iff)
  have "int k * step_samples + window_samples \<le> n \<longleftrightarrow>
        int k * step_samples \<le> n - window_samples"
    by linarith
  also have "\<dots> \<longleftrightarrow> int k \<le> (n - window_samples) div step_samples"
    using assms by (rule int_le_div)
  finally show ?thesis using False nn by (simp add: window_count_def) linarith
qed

text \<open>
  Claim C8. For positive \<open>window_samples\<close> and \<open>step_samples\<close> the loop header enumerates the
  boundaries \<open>(k * step, k * step + window_samples)\<close> for \<open>k = 0, 1, ...\<close> below the window
  count; a start \<open>k * step\<close> satisfies \<open>start + window_samples \<le> n\<close> exactly when \<open>k\<close> is below
  the window count; and the window count is zero when \<open>n < window_samples\<close> and
  \<open>\<lfloor>(n - window_samples) / step_samples\<rfloor> + 1\<close> otherwise.
\<close>

theorem window_enumeration:
  assumes "0 < window_samples" and "0 < step_samples"
  shows "window_bounds n window_samples step_samples =
           Inr (map (\<lambda>k. (int k * step_samples, int k * step_samples + window_samples))
                  [0..<window_count n window_samples step_samples])
         \<and> (\<forall>k. int k * step_samples + window_samples \<le> n \<longleftrightarrow>
                  k < window_count n window_samples step_samples)
         \<and> (n < window_samples \<longrightarrow> window_bounds n window_samples step_samples = Inr [])
         \<and> (window_samples \<le> n \<longrightarrow>
              int (window_count n window_samples step_samples) =
                (n - window_samples) div step_samples + 1)"
proof (intro conjI allI impI)
  show main: "window_bounds n window_samples step_samples =
           Inr (map (\<lambda>k. (int k * step_samples, int k * step_samples + window_samples))
                  [0..<window_count n window_samples step_samples])"
    using assms(2) by (rule window_bounds_map)
  show "window_bounds n window_samples step_samples = Inr []" if "n < window_samples"
    using main that by (simp add: window_count_def)
next
  fix k
  show "int k * step_samples + window_samples \<le> n \<longleftrightarrow>
           k < window_count n window_samples step_samples"
    using assms(2) by (rule window_count_iff)
next
  assume "window_samples \<le> n"
  then have "0 \<le> (n - window_samples) div step_samples"
    using assms(2) by (simp add: pos_imp_zdiv_nonneg_iff)
  with \<open>window_samples \<le> n\<close>
  show "int (window_count n window_samples step_samples) =
          (n - window_samples) div step_samples + 1"
    by (simp add: window_count_def)
qed

theorem window_enumeration_witness:
  "(0::int) < 192 \<and> (0::int) < 96 \<and>
   window_bounds 500 192 96 = Inr [(0, 192), (96, 288), (192, 384), (288, 480)] \<and>
   window_count 500 192 96 = 4 \<and> window_bounds 100 192 96 = Inr []"
  using window_enumeration [of 192 96 500] window_enumeration [of 192 96 100]
  by (simp add: window_count_def upt_rec)

subsection \<open>Dicts\<close>

lemma map_of_dict_set:
  "map_of (dict_set d k v) k' = (if k' = k then Some v else map_of d k')"
  by (induction d) auto

lemma keys_dict_set:
  "map fst (dict_set d k v) = (if k \<in> set (map fst d) then map fst d else map fst d @ [k])"
  by (induction d) force+

subsection \<open>pNN50\<close>

lemma np_diff_single: "np_diff [x] = []"
  by (simp add: np_diff_def)

lemma two_peaks_rr_diff:
  assumes "length peaks = 2"
  shows "np_diff (ibi_of_peaks peaks) = []"
proof -
  from assms obtain a b where "peaks = [a, b]"
    by (metis (no_types, opaque_lifting) One_nat_def Suc_1 length_0_conv length_Suc_conv)
  then show ?thesis
    by (simp add: ibi_of_peaks_def np_diff_idx_def np_diff_def)
qed

text \<open>
  Claim C9. On both paths pNN50 is a value, never a division error: it is the number of
  successive differences above 0.05 in absolute value divided by their number when there is
  at least one difference, and 0 when there is none. Two peaks give one inter-beat interval,
  hence no successive difference, hence pNN50 equal to 0.
\<close>

theorem pnn50_no_division_error:
  "pnn50_train rr_diff =
     Num (if rr_diff = [] then 0
          else real (length (filter (\<lambda>d. \<bar>d\<bar> > 0.05) rr_diff)) / real (length rr_diff))
   \<and> pnn50_infer rr_diff =
     Inr (Num (if rr_diff = [] then 0
               else real (length (filter (\<lambda>d. \<bar>d\<bar> > 0.05) rr_diff)) / real (length rr_diff)))
   \<and> (length peaks = 2 \<longrightarrow>
        np_diff (ibi_of_peaks peaks) = []
        \<and> pnn50_train (np_diff (ibi_of_peaks peaks)) = Num 0
        \<and> pnn50_infer (np_diff (ibi_of_peaks peaks)) = Inr (Num 0))"
  by (auto simp: pnn50_train_def pnn50_infer_def nn50_of_def py_truediv_def bind_err_def
        two_peaks_rr_diff)

theorem pnn50_no_division_error_witness:
  "length [10::nat, 74] = 2
   \<and> np_diff (ibi_of_peaks [10, 74]) = []
   \<and> pnn50_train (np_diff (ibi_of_peaks [10, 74])) = Num 0
   \<and> pnn50_infer (np_diff (ibi_of_peaks [10, 74])) = Inr (Num 0)
   \<and> pnn50_train [0.1, 0.01] = Num (1 / 2)
   \<and> pnn50_infer [0.1, 0.01] = Inr (Num (1 / 2))"
  using pnn50_no_division_error [of "[0.1, 0.01]" "[10, 74]"]
  by (simp add: pnn50_train_def pnn50_infer_def nn50_of_def bind_err_def py_truediv_def
        ibi_of_peaks_def np_diff_def np_diff_idx_def)

subsection \<open>The physiological override\<close>

text \<open>
  Claim C10. When the scalar inputs satisfy \<open>36.0 \<le> TEMP \<le> 37.5\<close>, \<open>EDA \<le> 3.0\<close> and
  \<open>|ACC_x|, |ACC_y|, |ACC_z| < 50\<close>, the endpoint answers \<^verbatim>\<open>NOT STRESSED\<close> with probability 0
  and the fixed advice, whatever the BVP value, the random draws, the signal library and the
  classifier are: no window is synthesised, no feature extracted, no classifier called.
\<close>

theorem predict_override:
  assumes "36.0 \<le> TEMP input" and "TEMP input \<le> 37.5" and "EDA input \<le> 3.0"
    and "\<bar>ACC_x input\<bar> < 50" and "\<bar>ACC_y input\<bar> < 50" and "\<bar>ACC_z input\<bar> < 50"
  shows "predict_stress lib predict_proba draw input =
           Prediction ''NOT STRESSED'' 0
             ''Your vital signs appear normal. Everything looks stable.''"
  using assms by (simp add: predict_stress_def)

theorem predict_override_witness:
  "\<forall>lib predict_proba draw.
     predict_stress lib predict_proba draw
       \<lparr>BVP = 1000, EDA = 3, TEMP = 36, ACC_x = 49, ACC_y = - 49, ACC_z = 0\<rparr> =
     Prediction ''NOT STRESSED'' 0 ''Your vital signs appear normal. Everything looks stable.''"
proof (intro allI)
  fix lib predict_proba draw
  show "predict_stress lib predict_proba draw
       \<lparr>BVP = 1000, EDA = 3, TEMP = 36, ACC_x = 49, ACC_y = - 49, ACC_z = 0\<rparr> =
     Prediction ''NOT STRESSED'' 0 ''Your vital signs appear normal. Everything looks stable.''"
    using predict_override
      [of "\<lparr>BVP = 1000, EDA = 3, TEMP = 36, ACC_x = 49, ACC_y = - 49, ACC_z = 0\<rparr>"
          lib predict_proba draw]
    by simp
qed

subsection \<open>Sequencing\<close>

lemma and_then_Some_iff:
  "and_then r f = Inr (Some y) \<longleftrightarrow> (\<exists>x. r = Inr (Some x) \<and> f x = Inr (Some y))"
  by (auto simp: and_then_def split: sum.splits option.splits)

lemma bind_err_Inr_iff:
  "bind_err r f = Inr y \<longleftrightarrow> (\<exists>x. r = Inr x \<and> f x = Inr y)"
  by (auto simp: bind_err_def split: sum.splits)

lemma map_of_dict_update:
  "map_of (dict_update d kvs) k =
     (case map_of (rev kvs) k of None \<Rightarrow> map_of d k | Some v \<Rightarrow> Some v)"
proof (induction kvs arbitrary: d)
  case Nil
  then show ?case by simp
next
  case (Cons kv kvs)
  obtain k' v' where kv: "kv = (k', v')" by (cases kv)
  show ?case
    by (simp add: kv Cons.IH map_of_dict_set map_add_def split: option.splits)
qed

subsection \<open>Band power\<close>

lemma trapezoid_nonneg:
  "sorted xs \<Longrightarrow> (\<forall>y\<in>set ys. 0 \<le> y) \<Longrightarrow> 0 \<le> trapezoid ys xs"
  by (induction ys xs rule: trapezoid.induct) auto

lemma set_mask_select: "set (mask_select xs m) \<subseteq> set xs"
  by (auto simp: mask_select_def dest: set_zip_leftD)

lemma mask_select_Cons:
  "mask_select (x # xs) (b # m) = (if b then x # mask_select xs m else mask_select xs m)"
  by (simp add: mask_select_def)

lemma mask_select_Nil: "mask_select xs [] = []" "mask_select [] m = []"
  by (simp_all add: mask_select_def)

lemma sorted_mask_select: "sorted xs \<Longrightarrow> sorted (mask_select xs m)"
proof (induction xs arbitrary: m)
  case Nil
  then show ?case by (simp add: mask_select_Nil)
next
  case (Cons x xs)
  show ?case
  proof (cases m)
    case Nil
    then show ?thesis by (simp add: mask_select_Nil)
  next
    case (Cons b m')
    have "\<forall>y\<in>set (mask_select xs m'). x \<le> y"
      using Cons.prems set_mask_select [of xs m'] by auto
    with Cons.prems Cons.IH [of m'] show ?thesis
      by (simp add: Cons mask_select_Cons)
  qed
qed

text \<open>
  Claim C6. When no frequency bin of the PSD lies in \<open>[low, high]\<close>, \<open>bandpower\<close> returns
  exactly 0. When the PSD estimate is what Welch's method delivers, one non-negative density
  per bin of an ascending frequency axis, \<open>bandpower\<close> returns a value and the value is
  non-negative.
\<close>

theorem bandpower_nonneg:
  "(welch lib arr fs = Some (freqs, psd) \<and> (\<forall>f\<in>set freqs. \<not> (low \<le> f \<and> f \<le> high))
      \<longrightarrow> bandpower lib arr fs low high = Inr 0)
   \<and> (welch lib arr fs = Some (freqs, psd) \<and> length psd = length freqs \<and> sorted freqs
        \<and> (\<forall>p\<in>set psd. 0 \<le> p)
      \<longrightarrow> (\<exists>r. bandpower lib arr fs low high = Inr r \<and> 0 \<le> r))"
proof (intro conjI impI)
  assume "welch lib arr fs = Some (freqs, psd) \<and> (\<forall>f\<in>set freqs. \<not> (low \<le> f \<and> f \<le> high))"
  then show "bandpower lib arr fs low high = Inr 0"
    by (auto simp: bandpower_def list_ex_iff)
next
  assume a: "welch lib arr fs = Some (freqs, psd) \<and> length psd = length freqs \<and> sorted freqs
        \<and> (\<forall>p\<in>set psd. 0 \<le> p)"
  define in_band where "in_band = map (\<lambda>f. low \<le> f \<and> f \<le> high) freqs"
  have "sorted (mask_select freqs in_band)"
    using a by (simp add: sorted_mask_select)
  moreover have "\<forall>y\<in>set (mask_select psd in_band). 0 \<le> y"
    using a set_mask_select [of psd in_band] by auto
  ultimately have "0 \<le> trapezoid (mask_select psd in_band) (mask_select freqs in_band)"
    by (rule trapezoid_nonneg)
  with a show "\<exists>r. bandpower lib arr fs low high = Inr r \<and> 0 \<le> r"
    by (simp add: bandpower_def in_band_def Let_def)
qed

text \<open>The reference periodogram meets these conditions for every input.\<close>

lemma dft_power_nonneg: "0 \<le> dft_power y k"
  by (simp add: dft_power_def Let_def)

lemma welch_periodogram_Some:
  "\<exists>freqs psd. welch_periodogram arr fs = Some (freqs, psd) \<and> length psd = length freqs
     \<and> (0 \<le> fs \<longrightarrow> sorted freqs \<and> (\<forall>p\<in>set psd. 0 \<le> p))"
proof (cases "arr = []")
  case True
  then show ?thesis by (simp add: welch_periodogram_def)
next
  case False
  define n where "n = length arr"
  have n: "0 < n" using False by (simp add: n_def)
  define freqs where "freqs = map (\<lambda>k. real k * fs / real n) [0..<n div 2 + 1]"
  have srt: "sorted freqs" if "0 \<le> fs"
  proof -
    have "sorted_wrt (\<lambda>a b. real a * fs / real n \<le> real b * fs / real n) [0..<n div 2 + 1]"
    proof (rule sorted_wrt_mono_rel [OF _ sorted_wrt_upt])
      fix a b :: nat
      assume "a < b"
      then show "real a * fs / real n \<le> real b * fs / real n"
        using that n by (simp add: divide_right_mono mult_right_mono)
    qed
    then show ?thesis by (simp add: freqs_def sorted_map del: upt_Suc)
  qed
  define w where "w = map (hann n) [0..<n]"
  define y where "y = map2 (\<lambda>wj x. wj * (x - sum_list arr / real n)) w arr"
  define scale where "scale = fs * sum_list (map (\<lambda>wj. wj ^ 2) w)"
  define psd where
    "psd = map (\<lambda>k. (if k = 0 \<or> 2 * k = n then 1 else 2) * dft_power y k / scale)
             [0..<n div 2 + 1]"
  have eq: "welch_periodogram arr fs = Some (freqs, psd)"
    using n
    by (simp add: welch_periodogram_def Let_def n_def [symmetric] freqs_def psd_def
          scale_def y_def w_def del: upt_Suc)
  have len: "length psd = length freqs" by (simp add: psd_def freqs_def)
  have "0 \<le> sum_list (map (\<lambda>wj. wj ^ 2) w)" by (auto intro!: sum_list_nonneg)
  then have sc: "0 \<le> scale" if "0 \<le> fs" using that by (simp add: scale_def)
  have nonneg: "\<forall>p\<in>set psd. 0 \<le> p" if "0 \<le> fs"
    using sc [OF that] dft_power_nonneg [of y]
    by (auto simp: psd_def intro!: divide_nonneg_nonneg mult_nonneg_nonneg simp del: upt_Suc)
  from eq len srt nonneg show ?thesis by blast
qed

theorem bandpower_nonneg_witness:
  "(\<exists>r. bandpower periodogram_lib [1, 2, 4, 8] 32 (1 / 10) (1 / 4) = Inr r \<and> 0 \<le> r)
   \<and> welch \<lparr>welch = (\<lambda>arr fs. Some ([0, fs / 4, fs / 2], [1, 2, 3])), find_peaks = (\<lambda>arr d. None)\<rparr>
     [1, 2, 3, 4] 4 = Some ([0, 1, 2], [1, 2, 3])
   \<and> bandpower \<lparr>welch = (\<lambda>arr fs. Some ([0, fs / 4, fs / 2], [1, 2, 3])), find_peaks = (\<lambda>arr d. None)\<rparr>
     [1, 2, 3, 4] 4 0.5 2 = Inr (5 / 2)
   \<and> bandpower \<lparr>welch = (\<lambda>arr fs. Some ([0, fs / 4, fs / 2], [1, 2, 3])), find_peaks = (\<lambda>arr d. None)\<rparr>
     [1, 2, 3, 4] 4 5 6 = Inr 0"
proof -
  obtain freqs psd where
    w: "welch_periodogram [1, 2, 4, 8] 32 = Some (freqs, psd)" "length psd = length freqs"
       "sorted freqs" "\<forall>p\<in>set psd. 0 \<le> p"
    using welch_periodogram_Some [of "[1, 2, 4, 8]" 32] by auto
  then have "welch periodogram_lib [1, 2, 4, 8] 32 = Some (freqs, psd)"
    by (simp add: periodogram_lib_def)
  with w have 1: "\<exists>r. bandpower periodogram_lib [1, 2, 4, 8] 32 (1 / 10) (1 / 4) = Inr r \<and> 0 \<le> r"
    using bandpower_nonneg [of periodogram_lib "[1, 2, 4, 8]" 32 freqs psd "1 / 10" "1 / 4"]
    by blast
  have 2: "welch \<lparr>welch = (\<lambda>arr fs. Some ([0, fs / 4, fs / 2], [1, 2, 3])), find_peaks = (\<lambda>arr d. None)\<rparr>
     [1, 2, 3, 4] 4 = Some ([0, 1, 2], [1, 2, 3])
   \<and> bandpower \<lparr>welch = (\<lambda>arr fs. Some ([0, fs / 4, fs / 2], [1, 2, 3])), find_peaks = (\<lambda>arr d. None)\<rparr>
     [1, 2, 3, 4] 4 0.5 2 = Inr (5 / 2)
   \<and> bandpower \<lparr>welch = (\<lambda>arr fs. Some ([0, fs / 4, fs / 2], [1, 2, 3])), find_peaks = (\<lambda>arr d. None)\<rparr>
     [1, 2, 3, 4] 4 5 6 = Inr 0"
    using bandpower_nonneg
      [of "\<lparr>welch = (\<lambda>arr fs. Some ([0, fs / 4, fs / 2], [1, 2, 3])), find_peaks = (\<lambda>arr d. None)\<rparr>"
        "[1, 2, 3, 4]" 4 "[0, 1, 2]" "[1, 2, 3]" 5 6]
    by (simp add: bandpower_def mask_select_def)
  from 1 2 show ?thesis by blast
qed

subsection \<open>HRV outputs\<close>

lemma bvp_distance:
  "py_int (real_of_int DEFAULT_BVP_SR * 0.3) = 19"
  "py_int (real_of_int DEFAULT_BVP_SR * 3 / 10) = 19"
  by (simp_all add: py_int_def DEFAULT_BVP_SR_def)

lemma label_alignment_lookup:
  "label_alignment chest_labels scale chest_len start end row = Inr (Some row') \<Longrightarrow>
   k \<noteq> ''label'' \<Longrightarrow> map_of row' k = map_of row k"
  by (auto simp: label_alignment_def Let_def map_of_dict_set
        split: if_splits list.splits sum.splits)

lemma window_row_stages:
  assumes "window_row lib signals chest_labels sr scale chest_len (start, end) = Inr (Some row)"
  obtains r1 r2 r3 r4 where
    "eda_features lib sr signals start end [] = Inr (Some r1)"
    "temp_features signals start end r1 = Inr (Some r2)"
    "acc_features signals start end r2 = Inr (Some r3)"
    "bvp_features lib signals start end r3 = Inr (Some r4)"
    "label_alignment chest_labels scale chest_len start end r4 = Inr (Some row)"
  using assms unfolding window_row_def Let_def and_then_Some_iff fst_conv snd_conv
  by blast

lemma extract_features_window_stages:
  assumes "extract_features_window lib signals = Inr row"
  obtains r1 r2 r3 where
    "infer_eda lib signals [] = Inr r1"
    "infer_temp signals r1 = Inr r2"
    "infer_acc signals r2 = Inr r3"
    "infer_bvp lib signals r3 = Inr row"
  using assms unfolding extract_features_window_def bind_err_Inr_iff
  by blast

text \<open>
  Claim C5. When peak detection on the BVP slice returns fewer than two peaks, the seven HRV
  entries of the row are exactly 0: in the values the training path computes, in every row
  the training path emits for such a window, and in every row the inference path returns.
\<close>

theorem hrv_zero_below_two_peaks:
  "(length peaks < 2 \<longrightarrow>
      hrv_train lib peaks =
        map (\<lambda>k. (k, Num 0))
          [''HR_mean'', ''HRV_SDNN'', ''HRV_RMSSD'', ''HRV_pNN50'', ''HRV_LF'', ''HRV_HF'',
           ''HRV_LFHF''])
   \<and> (window_row lib signals chest_labels sr scale chest_len (start, end) = Inr (Some row)
        \<and> map_of signals ''BVP'' = Some channel
        \<and> reals_of (py_slice channel (start * 2) (end * 2)) = Some bvp
        \<and> find_peaks lib bvp 19 = Some peaks \<and> length peaks < 2 \<longrightarrow>
      list_all (\<lambda>k. map_of row k = Some (Num 0))
        [''HR_mean'', ''HRV_SDNN'', ''HRV_RMSSD'', ''HRV_pNN50'', ''HRV_LF'', ''HRV_HF'',
         ''HRV_LFHF''])
   \<and> (extract_features_window lib isignals = Inr irow
        \<and> map_of isignals ''BVP'' = Some ibvp
        \<and> find_peaks lib ibvp 20 = Some peaks \<and> length peaks < 2 \<longrightarrow>
      list_all (\<lambda>k. map_of irow k = Some (Num 0))
        [''HR_mean'', ''HRV_SDNN'', ''HRV_RMSSD'', ''HRV_pNN50'', ''HRV_LF'', ''HRV_HF'',
         ''HRV_LFHF''])"
proof (intro conjI impI)
  assume "length peaks < 2"
  then show "hrv_train lib peaks =
        map (\<lambda>k. (k, Num 0))
          [''HR_mean'', ''HRV_SDNN'', ''HRV_RMSSD'', ''HRV_pNN50'', ''HRV_LF'', ''HRV_HF'',
           ''HRV_LFHF'']"
    by (simp add: hrv_train_def)
next
  assume a: "window_row lib signals chest_labels sr scale chest_len (start, end) = Inr (Some row)
        \<and> map_of signals ''BVP'' = Some channel
        \<and> reals_of (py_slice channel (start * 2) (end * 2)) = Some bvp
        \<and> find_peaks lib bvp 19 = Some peaks \<and> length peaks < 2"
  then obtain r3 r4 where
    b: "bvp_features lib signals start end r3 = Inr (Some r4)" and
    l: "label_alignment chest_labels scale chest_len start end r4 = Inr (Some row)"
    by (blast elim: window_row_stages)
  from a b have r4: "r4 = dict_update (dict_update r3 (prefixed ''BVP_'' (stats_dict bvp)))
                            (hrv_train lib peaks)"
    by (simp add: bvp_features_def Let_def bvp_distance split: if_splits)
  have "list_all (\<lambda>k. map_of r4 k = Some (Num 0))
        [''HR_mean'', ''HRV_SDNN'', ''HRV_RMSSD'', ''HRV_pNN50'', ''HRV_LF'', ''HRV_HF'',
         ''HRV_LFHF'']"
    using a by (simp add: r4 map_of_dict_update map_of_dict_set hrv_train_def)
  then show "list_all (\<lambda>k. map_of row k = Some (Num 0))
        [''HR_mean'', ''HRV_SDNN'', ''HRV_RMSSD'', ''HRV_pNN50'', ''HRV_LF'', ''HRV_HF'',
         ''HRV_LFHF'']"
    by (simp add: label_alignment_lookup [OF l])
next
  assume a: "extract_features_window lib isignals = Inr irow
        \<and> map_of isignals ''BVP'' = Some ibvp
        \<and> find_peaks lib ibvp 20 = Some peaks \<and> length peaks < 2"
  then obtain r3 where b: "infer_bvp lib isignals r3 = Inr irow"
    by (blast elim: extract_features_window_stages)
  from a b obtain r' where
    "irow = dict_update r'
          (map (\<lambda>k. (k, Num 0))
             [''HR_mean'', ''HRV_SDNN'', ''HRV_RMSSD'', ''HRV_pNN50'', ''HRV_LF'', ''HRV_HF'',
              ''HRV_LFHF''])"
    by (auto simp: infer_bvp_def dict_get_def bind_err_Inr_iff hrv_infer_def)
  then show "list_all (\<lambda>k. map_of irow k = Some (Num 0))
        [''HR_mean'', ''HRV_SDNN'', ''HRV_RMSSD'', ''HRV_pNN50'', ''HRV_LF'', ''HRV_HF'',
         ''HRV_LFHF'']"
    by (simp add: map_of_dict_update map_of_dict_set)
qed

lemmas train_defs =
  window_row_def and_then_def eda_features_def temp_features_def acc_features_def
  bvp_features_def label_alignment_def valid_def np_std_f_def np_std_def dev_sum_def
  py_slice_def Let_def dict_has_def map_of_dict_set map_of_dict_update pd_mode_def
  ALLOWED_LABELS_def py_int_def bvp_distance power2_eq_square

lemmas infer_defs =
  extract_features_window_def infer_eda_def infer_temp_def infer_acc_def infer_bvp_def
  hrv_infer_def summary_assignments_def bind_err_def dict_get_def np_min_def np_max_def
  bandpower_def np_take_def np_broadcast_def py_truediv_def Let_def power2_eq_square

theorem hrv_zero_below_two_peaks_witness:
  "(\<exists>row.
      window_row \<lparr>welch = (\<lambda>arr fs. None), find_peaks = (\<lambda>arr d. Some [])\<rparr>
        [(''BVP'', [Num 1, Num 2, Num 3, Num 4])] [1, 1] 32 (1 / 2) 2 (0, 2) = Inr (Some row)
      \<and> list_all (\<lambda>k. map_of row k = Some (Num 0))
          [''HR_mean'', ''HRV_SDNN'', ''HRV_RMSSD'', ''HRV_pNN50'', ''HRV_LF'', ''HRV_HF'',
           ''HRV_LFHF''])
   \<and> (\<exists>irow.
      extract_features_window
        \<lparr>welch = (\<lambda>arr fs. Some ([0, fs / 2], [0, 1])), find_peaks = (\<lambda>arr d. Some [])\<rparr>
        [(''EDA'', [1, 2, 4]), (''TEMP'', [36, 36.5, 37]), (''ACC_x'', [1, 2, 3]),
         (''ACC_y'', [0, 0, 0]), (''ACC_z'', [0, 1, 0]), (''BVP'', [1, 2, 3, 4, 5, 6])] = Inr irow
      \<and> list_all (\<lambda>k. map_of irow k = Some (Num 0))
          [''HR_mean'', ''HRV_SDNN'', ''HRV_RMSSD'', ''HRV_pNN50'', ''HRV_LF'', ''HRV_HF'',
           ''HRV_LFHF''])"
proof (intro conjI)
  let ?L = "\<lparr>welch = (\<lambda>arr fs. None), find_peaks = (\<lambda>arr d. Some [])\<rparr>"
  have "\<exists>row.
    window_row ?L [(''BVP'', [Num 1, Num 2, Num 3, Num 4])] [1, 1] 32 (1 / 2) 2 (0, 2)
       = Inr (Some row)"
    by (simp add: train_defs)
  then obtain row where r:
    "window_row ?L [(''BVP'', [Num 1, Num 2, Num 3, Num 4])] [1, 1] 32 (1 / 2) 2 (0, 2)
       = Inr (Some row)" ..
  have "reals_of (py_slice [Num 1, Num 2, Num 3, Num 4] (0 * 2) (2 * 2)) = Some [1, 2, 3, 4]"
    by (simp add: py_slice_def)
  with r have "list_all (\<lambda>k. map_of row k = Some (Num 0))
          [''HR_mean'', ''HRV_SDNN'', ''HRV_RMSSD'', ''HRV_pNN50'', ''HRV_LF'', ''HRV_HF'',
           ''HRV_LFHF'']"
    using hrv_zero_below_two_peaks
      [of "[]" ?L "[(''BVP'', [Num 1, Num 2, Num 3, Num 4])]" "[1, 1]" 32 "1 / 2" 2 0 2 row
          "[Num 1, Num 2, Num 3, Num 4]" "[1, 2, 3, 4]"]
    by simp
  with r show "\<exists>row.
      window_row ?L [(''BVP'', [Num 1, Num 2, Num 3, Num 4])] [1, 1] 32 (1 / 2) 2 (0, 2)
        = Inr (Some row)
      \<and> list_all (\<lambda>k. map_of row k = Some (Num 0))
          [''HR_mean'', ''HRV_SDNN'', ''HRV_RMSSD'', ''HRV_pNN50'', ''HRV_LF'', ''HRV_HF'',
           ''HRV_LFHF'']"
    by blast
next
  let ?L = "\<lparr>welch = (\<lambda>arr fs. Some ([0, fs / 2], [0, 1])), find_peaks = (\<lambda>arr d. Some [])\<rparr>"
  let ?S = "[(''EDA'', [1, 2, 4]), (''TEMP'', [36, 36.5, 37]), (''ACC_x'', [1, 2, 3]),
         (''ACC_y'', [0, 0, 0]), (''ACC_z'', [0, 1, 0]), (''BVP'', [1, 2, 3, 4, 5, 6 :: real])]"
  have "\<exists>irow. extract_features_window ?L ?S = Inr irow"
    by (simp add: infer_defs)
  then obtain irow where r: "extract_features_window ?L ?S = Inr irow" ..
  then have "list_all (\<lambda>k. map_of irow k = Some (Num 0))
          [''HR_mean'', ''HRV_SDNN'', ''HRV_RMSSD'', ''HRV_pNN50'', ''HRV_LF'', ''HRV_HF'',
           ''HRV_LFHF'']"
    using hrv_zero_below_two_peaks
      [of "[]" ?L _ _ _ _ _ _ _ _ _ _ ?S irow "[1, 2, 3, 4, 5, 6]"]
    by simp
  with r show "\<exists>irow. extract_features_window ?L ?S = Inr irow
      \<and> list_all (\<lambda>k. map_of irow k = Some (Num 0))
          [''HR_mean'', ''HRV_SDNN'', ''HRV_RMSSD'', ''HRV_pNN50'', ''HRV_LF'', ''HRV_HF'',
           ''HRV_LFHF'']"
    by blast
qed

subsection \<open>Label alignment\<close>










subsection \<open>Rows of the training path\<close>


lemma temp_features_other:
  assumes "temp_features signals start end row = Inr (Some row')"
    and "k \<notin> set [''TEMP_mean'', ''TEMP_std'', ''TEMP_min'', ''TEMP_max'', ''TEMP_median'',
           ''TEMP_skew'', ''TEMP_kurt'', ''TEMP_slope'']"
  shows "map_of row' k = map_of row k"
  using assms
  by (auto simp: temp_features_def Let_def map_of_dict_update map_of_dict_set prefixed_def
        stats_dict_def split: option.splits if_splits sum.splits)

lemma acc_features_other:
  assumes "acc_features signals start end row = Inr (Some row')"
    and "k \<notin> set [''ACC_mag_mean'', ''ACC_mag_std'', ''ACC_mag_min'', ''ACC_mag_max'',
           ''ACC_mag_median'', ''ACC_mag_skew'', ''ACC_mag_kurt'', ''ACC_energy'']"
  shows "map_of row' k = map_of row k"
  using assms
  by (auto simp: acc_features_def Let_def map_of_dict_update map_of_dict_set prefixed_def
        stats_dict_def split: option.splits if_splits sum.splits)

lemma bvp_features_other:
  assumes "bvp_features lib signals start end row = Inr (Some row')"
    and "k \<notin> set [''BVP_mean'', ''BVP_std'', ''BVP_min'', ''BVP_max'', ''BVP_median'',
           ''BVP_skew'', ''BVP_kurt'', ''HR_mean'', ''HRV_SDNN'', ''HRV_RMSSD'', ''HRV_pNN50'',
           ''HRV_LF'', ''HRV_HF'', ''HRV_LFHF'']"
  shows "map_of row' k = map_of row k"
  using assms
  by (auto simp: bvp_features_def Let_def map_of_dict_update map_of_dict_set prefixed_def
        stats_dict_def hrv_train_def split: option.splits if_splits sum.splits)





subsection \<open>Label alignment of the emitted rows\<close>



subsection \<open>Column names and their order\<close>

lemmas column_defs = eda_columns_def temp_columns_def acc_columns_def bvp_columns_def

lemma eda_features_keys:
  assumes "eda_features lib sr signals start end [] = Inr (Some row)"
    and "map_of signals ''EDA'' = Some channel"
  shows "map fst row = eda_columns"
  using assms
  by (auto simp: eda_features_def Let_def keys_dict_set prefixed_def stats_dict_def
        eda_columns_def split: option.splits if_splits sum.splits)

lemma temp_features_keys:
  assumes "temp_features signals start end row = Inr (Some row')"
    and "map_of signals ''TEMP'' = Some channel"
    and "map fst row = eda_columns"
  shows "map fst row' = eda_columns @ temp_columns"
  using assms
  by (auto simp: temp_features_def Let_def keys_dict_set prefixed_def stats_dict_def
        column_defs split: option.splits if_splits sum.splits)

lemma acc_features_keys:
  assumes "acc_features signals start end row = Inr (Some row')"
    and "map_of signals ''ACC_x'' = Some cx" and "map_of signals ''ACC_y'' = Some cy"
    and "map_of signals ''ACC_z'' = Some cz"
    and "map fst row = eda_columns @ temp_columns"
  shows "map fst row' = eda_columns @ temp_columns @ acc_columns"
  using assms
  by (auto simp: acc_features_def Let_def keys_dict_set prefixed_def stats_dict_def
        column_defs split: option.splits if_splits sum.splits)

lemma hrv_train_keys:
  "map fst (hrv_train lib peaks) =
     [''HR_mean'', ''HRV_SDNN'', ''HRV_RMSSD'', ''HRV_pNN50'', ''HRV_LF'', ''HRV_HF'',
      ''HRV_LFHF'']"
  by (simp add: hrv_train_def Let_def)

lemma keys_dict_update_fresh:
  "distinct (map fst kvs) \<Longrightarrow> set (map fst kvs) \<inter> set (map fst d) = {} \<Longrightarrow>
   map fst (dict_update d kvs) = map fst d @ map fst kvs"
proof (induction kvs arbitrary: d)
  case Nil
  then show ?case by simp
next
  case (Cons kv kvs)
  obtain k v where kv: "kv = (k, v)" by (cases kv)
  have k: "k \<notin> set (map fst d)" using Cons.prems kv by auto
  then have "map fst (dict_set d k v) = map fst d @ [k]" by (simp add: keys_dict_set)
  moreover have "distinct (map fst kvs)"
    "set (map fst kvs) \<inter> set (map fst (dict_set d k v)) = {}"
    using Cons.prems kv k by (auto simp: keys_dict_set)
  ultimately show ?case using Cons.IH [of "dict_set d k v"] by (simp add: kv)
qed

lemma bvp_features_keys:
  assumes "bvp_features lib signals start end row = Inr (Some row')"
    and "map_of signals ''BVP'' = Some channel"
    and "map fst row = eda_columns @ temp_columns @ acc_columns"
  shows "map fst row' = eda_columns @ temp_columns @ acc_columns @ bvp_columns"
proof -
  from assms(1,2) obtain bvp peaks where
    r: "row' = dict_update (dict_update row (prefixed ''BVP_'' (stats_dict bvp)))
                 (hrv_train lib peaks)"
    by (auto simp: bvp_features_def Let_def split: option.splits if_splits)
  have 1: "map fst (dict_update row (prefixed ''BVP_'' (stats_dict bvp))) =
        eda_columns @ temp_columns @ acc_columns @
        [''BVP_mean'', ''BVP_std'', ''BVP_min'', ''BVP_max'', ''BVP_median'', ''BVP_skew'',
         ''BVP_kurt'']"
    by (subst keys_dict_update_fresh)
       (simp_all add: assms(3) prefixed_def stats_dict_def column_defs)
  show ?thesis
    unfolding r
    by (subst keys_dict_update_fresh) (simp_all add: 1 hrv_train_keys column_defs)
qed

lemma label_alignment_keys:
  assumes "label_alignment chest_labels scale chest_len start end row = Inr (Some row')"
    and "''label'' \<notin> set (map fst row)"
  shows "map fst row' = map fst row @ [''label'']"
  using assms
  by (auto simp: label_alignment_def Let_def keys_dict_set dict_has_def map_of_eq_None_iff
        split: if_splits list.splits)

lemma keys_dict_set_after: "map fst (dict_set d k v) = keys_after_set (map fst d) k"
  by (simp add: keys_dict_set keys_after_set_def)

lemma summary_assignments_keys:
  assumes "summary_assignments p a row = Inr row'"
  shows "map fst row' =
    foldl keys_after_set (map fst row)
      (map ((@) p) [''mean'', ''std'', ''min'', ''max'', ''median'', ''skew'', ''kurt''])"
  using assms
  by (auto simp: summary_assignments_def bind_err_Inr_iff Let_def keys_dict_set_after)

lemma hrv_infer_keys:
  assumes "hrv_infer lib peaks row = Inr row'"
  shows "map fst row' =
    foldl keys_after_set (map fst row)
      [''HR_mean'', ''HRV_SDNN'', ''HRV_RMSSD'', ''HRV_pNN50'', ''HRV_LF'', ''HRV_HF'',
       ''HRV_LFHF'']"
proof (cases "length peaks > 1")
  case True
  with assms show ?thesis
    by (auto simp: hrv_infer_def bind_err_Inr_iff Let_def keys_dict_set_after)
next
  case False
  with assms show ?thesis
    by (auto simp: hrv_infer_def keys_dict_set_after)
qed

lemma infer_eda_keys:
  assumes "infer_eda lib signals [] = Inr row"
  shows "map fst row = eda_columns"
  using assms
  by (auto simp: infer_eda_def summary_assignments_def bind_err_def Let_def
        keys_dict_set_after keys_after_set_def
        eda_columns_def split: option.splits if_splits sum.splits)

lemma infer_temp_keys:
  assumes "infer_temp signals row = Inr row'" and "map fst row = eda_columns"
  shows "map fst row' = eda_columns @ temp_columns"
  using assms
  by (auto simp: infer_temp_def summary_assignments_def bind_err_def Let_def
        keys_dict_set_after keys_after_set_def
        column_defs split: option.splits if_splits sum.splits)

lemma infer_acc_keys:
  assumes "infer_acc signals row = Inr row'" and "map fst row = eda_columns @ temp_columns"
  shows "map fst row' = eda_columns @ temp_columns @ acc_columns"
proof -
  from assms(1) obtain mag r0 v where
    "summary_assignments ''ACC_mag_'' mag row = Inr r0" "row' = dict_set r0 ''ACC_energy'' v"
    by (auto simp: infer_acc_def bind_err_Inr_iff Let_def)
  then show ?thesis
    using assms(2)
    by (simp add: summary_assignments_keys keys_dict_set_after keys_after_set_def column_defs)
qed

lemma infer_bvp_keys:
  assumes "infer_bvp lib signals row = Inr row'"
    and "map fst row = eda_columns @ temp_columns @ acc_columns"
  shows "map fst row' = eda_columns @ temp_columns @ acc_columns @ bvp_columns"
proof -
  from assms(1) obtain bvp r0 peaks where
    "summary_assignments ''BVP_'' bvp row = Inr r0" "hrv_infer lib peaks r0 = Inr row'"
    by (auto simp: infer_bvp_def bind_err_Inr_iff split: option.splits)
  then show ?thesis
    using assms(2)
    by (simp add: summary_assignments_keys hrv_infer_keys keys_after_set_def column_defs)
qed

lemma schema_order: "schema = order"
  by (simp add: schema_def order_def column_defs)

lemma train_row_columns:
  assumes "window_row lib signals chest_labels sr scale chest_len (start, end) = Inr (Some row)"
    and "map_of signals ''EDA'' = Some c1" and "map_of signals ''TEMP'' = Some c2"
    and "map_of signals ''ACC_x'' = Some c3" and "map_of signals ''ACC_y'' = Some c4"
    and "map_of signals ''ACC_z'' = Some c5" and "map_of signals ''BVP'' = Some c6"
  shows "train_columns row = schema @ [''label'']"
proof -
  from assms(1) obtain r1 r2 r3 r4 where
    s: "eda_features lib sr signals start end [] = Inr (Some r1)"
       "temp_features signals start end r1 = Inr (Some r2)"
       "acc_features signals start end r2 = Inr (Some r3)"
       "bvp_features lib signals start end r3 = Inr (Some r4)"
       "label_alignment chest_labels scale chest_len start end r4 = Inr (Some row)"
    by (rule window_row_stages)
  have 1: "map fst r1 = eda_columns" using s(1) assms(2) by (rule eda_features_keys)
  have 2: "map fst r2 = eda_columns @ temp_columns"
    using s(2) assms(3) 1 by (rule temp_features_keys)
  have 3: "map fst r3 = eda_columns @ temp_columns @ acc_columns"
    using s(3) assms(4,5,6) 2 by (rule acc_features_keys)
  have 4: "map fst r4 = eda_columns @ temp_columns @ acc_columns @ bvp_columns"
    using s(4) assms(7) 3 by (rule bvp_features_keys)
  have "''label'' \<notin> set (map fst r4)" by (simp add: 4 column_defs)
  with s(5) have "map fst row = map fst r4 @ [''label'']" by (rule label_alignment_keys)
  then show ?thesis by (simp add: train_columns_def schema_def 4)
qed

lemma infer_row_columns:
  assumes "extract_features_window lib signals = Inr features"
  shows "''index'' # map fst features = schema"
proof -
  from assms obtain r1 r2 r3 where
    s: "infer_eda lib signals [] = Inr r1" "infer_temp signals r1 = Inr r2"
       "infer_acc signals r2 = Inr r3" "infer_bvp lib signals r3 = Inr features"
    by (rule extract_features_window_stages)
  have 1: "map fst r1 = eda_columns" using s(1) by (rule infer_eda_keys)
  have 2: "map fst r2 = eda_columns @ temp_columns" using s(2) 1 by (rule infer_temp_keys)
  have 3: "map fst r3 = eda_columns @ temp_columns @ acc_columns"
    using s(3) 2 by (rule infer_acc_keys)
  have "map fst features = eda_columns @ temp_columns @ acc_columns @ bvp_columns"
    using s(4) 3 by (rule infer_bvp_keys)
  then show ?thesis by (simp add: schema_def)
qed

lemma schema_no_label: "''label'' \<notin> set schema"
  by (simp add: schema_def column_defs)

subsection \<open>The worked example\<close>

lemmas example_defs = example_lib_def example_signals_def example_window_def

lemma example_eda:
  "\<exists>r. eda_features example_lib 32 example_signals 0 3 row = Inr (Some r)"
  by (simp add: example_defs eda_features_def valid_def np_std_f_def np_std_def dev_sum_def
        py_slice_def Let_def py_int_def bandpower_def power2_eq_square)

lemma example_temp:
  "\<exists>r. temp_features example_signals 0 3 row = Inr (Some r)"
  by (simp add: example_defs temp_features_def valid_def np_std_f_def np_std_def dev_sum_def
        py_slice_def Let_def power2_eq_square)

lemma example_acc:
  "\<exists>r. acc_features example_signals 0 3 row = Inr (Some r)"
  by (simp add: example_defs acc_features_def acc_magnitude_def np_broadcast_def valid_def
        np_std_f_def np_std_def dev_sum_def py_slice_def Let_def power2_eq_square)

lemma example_bvp:
  "\<exists>r. bvp_features example_lib example_signals 0 3 row = Inr (Some r)"
  by (simp add: example_defs bvp_features_def valid_def np_std_f_def np_std_def dev_sum_def
        py_slice_def Let_def bvp_distance power2_eq_square)

lemma example_label:
  "\<exists>r. label_alignment [1, 1, 1] 1 3 0 3 row = Inr (Some r)"
  by (simp add: label_alignment_def py_slice_def Let_def py_int_def pd_mode_def
        ALLOWED_LABELS_def dict_has_def map_of_dict_set)

lemma example_train_row:
  "\<exists>row. window_row example_lib example_signals [1, 1, 1] 32 1 3 (0, 3) = Inr (Some row)"
proof -
  obtain r1 where 1: "eda_features example_lib 32 example_signals 0 3 [] = Inr (Some r1)"
    using example_eda by blast
  obtain r2 where 2: "temp_features example_signals 0 3 r1 = Inr (Some r2)"
    using example_temp by blast
  obtain r3 where 3: "acc_features example_signals 0 3 r2 = Inr (Some r3)"
    using example_acc by blast
  obtain r4 where 4: "bvp_features example_lib example_signals 0 3 r3 = Inr (Some r4)"
    using example_bvp by blast
  obtain r where "label_alignment [1, 1, 1] 1 3 0 3 r4 = Inr (Some r)"
    using example_label by blast
  with 1 2 3 4 show ?thesis
    by (simp add: window_row_def and_then_def)
qed

lemma example_channels:
  "map_of example_signals ''EDA'' = Some (map Num [1, 2, 4])"
  "map_of example_signals ''TEMP'' = Some (map Num [36, 36.5, 37])"
  "map_of example_signals ''ACC_x'' = Some (map Num [1, 0, 0])"
  "map_of example_signals ''ACC_y'' = Some (map Num [0, 0, 0])"
  "map_of example_signals ''ACC_z'' = Some (map Num [0, 1, 0])"
  "map_of example_signals ''BVP'' = Some (map Num [1, 2, 3, 4, 5, 6])"
  by (simp_all add: example_defs)

lemma example_infer_eda: "\<exists>r. infer_eda example_lib example_window row = Inr r"
  by (simp add: example_defs infer_eda_def summary_assignments_def bind_err_def dict_get_def
        np_min_def np_max_def bandpower_def Let_def)

lemma example_infer_temp: "\<exists>r. infer_temp example_window row = Inr r"
  by (simp add: example_defs infer_temp_def summary_assignments_def bind_err_def dict_get_def
        np_min_def np_max_def py_truediv_def Let_def)

lemma example_infer_acc: "\<exists>r. infer_acc example_window row = Inr r"
  by (simp add: example_defs infer_acc_def summary_assignments_def bind_err_def dict_get_def
        np_min_def np_max_def np_broadcast_def Let_def)

lemma example_infer_bvp: "\<exists>r. infer_bvp example_lib example_window row = Inr r"
  by (simp add: example_defs infer_bvp_def hrv_infer_def summary_assignments_def bind_err_def
        dict_get_def np_min_def np_max_def Let_def)

lemma example_infer_row:
  "\<exists>row. extract_features_window example_lib example_window = Inr row"
proof -
  obtain r1 where 1: "infer_eda example_lib example_window [] = Inr r1"
    using example_infer_eda by blast
  obtain r2 where 2: "infer_temp example_window r1 = Inr r2"
    using example_infer_temp by blast
  obtain r3 where 3: "infer_acc example_window r2 = Inr r3"
    using example_infer_acc by blast
  obtain r where "infer_bvp example_lib example_window r3 = Inr r"
    using example_infer_bvp by blast
  with 1 2 3 show ?thesis
    by (simp add: extract_features_window_def bind_err_def)
qed

subsection \<open>The schema of the rows\<close>

text \<open>
  Claim C3, as amended. The column order of the code is the schema enumerated in the
  specification: the row identifier \<open>index\<close> first, then the EDA, TEMP, ACC and BVP/HRV
  groups. It has 45 entries, not 41. With all six channels present every row of the
  training path has these columns in this order followed by \<open>label\<close> (46 columns, 45 once
  the label is split off), and every row of the inference path has exactly these columns in
  this order.
\<close>

theorem schema_of_rows:
  "order = schema \<and> length order = 45 \<and> hd order = ''index''
   \<and> (window_row lib signals chest_labels sr scale chest_len (start, end) = Inr (Some row)
        \<and> list_all (dict_has signals) [''EDA'', ''TEMP'', ''ACC_x'', ''ACC_y'', ''ACC_z'', ''BVP'']
      \<longrightarrow> train_columns row = order @ [''label''] \<and> length (train_columns row) = 46
          \<and> train_X_columns row = order)
   \<and> (extract_features_window lib isignals = Inr features
      \<longrightarrow> ''index'' # map fst features = order)"
proof (intro conjI impI)
  show "order = schema" by (simp add: schema_order)
  show len: "length order = 45" by (simp add: order_def)
  show "hd order = ''index''" by (simp add: order_def)
  assume a: "window_row lib signals chest_labels sr scale chest_len (start, end) = Inr (Some row)
        \<and> list_all (dict_has signals) [''EDA'', ''TEMP'', ''ACC_x'', ''ACC_y'', ''ACC_z'', ''BVP'']"
  then obtain c1 c2 c3 c4 c5 c6 where
    "map_of signals ''EDA'' = Some c1" "map_of signals ''TEMP'' = Some c2"
    "map_of signals ''ACC_x'' = Some c3" "map_of signals ''ACC_y'' = Some c4"
    "map_of signals ''ACC_z'' = Some c5" "map_of signals ''BVP'' = Some c6"
    by (auto simp: dict_has_def)
  with a have c: "train_columns row = schema @ [''label'']"
    by (blast intro: train_row_columns)
  then show "train_columns row = order @ [''label'']" by (simp add: schema_order)
  from c show "length (train_columns row) = 46" by (simp add: schema_order len)
  from c show "train_X_columns row = order"
    using schema_no_label
    by (auto simp: train_X_columns_def schema_order [symmetric] filter_id_conv)
next
  assume "extract_features_window lib isignals = Inr features"
  then show "''index'' # map fst features = order"
    by (simp add: infer_row_columns schema_order [symmetric])
qed

theorem schema_of_rows_witness:
  "\<exists>row features.
     window_row example_lib example_signals [1, 1, 1] 32 1 3 (0, 3) = Inr (Some row)
     \<and> list_all (dict_has example_signals)
         [''EDA'', ''TEMP'', ''ACC_x'', ''ACC_y'', ''ACC_z'', ''BVP'']
     \<and> train_columns row = order @ [''label''] \<and> length (train_columns row) = 46
     \<and> train_X_columns row = order
     \<and> extract_features_window example_lib example_window = Inr features
     \<and> ''index'' # map fst features = order"
proof -
  obtain row where r:
    "window_row example_lib example_signals [1, 1, 1] 32 1 3 (0, 3) = Inr (Some row)"
    using example_train_row by blast
  obtain features where f: "extract_features_window example_lib example_window = Inr features"
    using example_infer_row by blast
  have ch: "list_all (dict_has example_signals)
         [''EDA'', ''TEMP'', ''ACC_x'', ''ACC_y'', ''ACC_z'', ''BVP'']"
    by (simp add: dict_has_def example_channels)
  from schema_of_rows
    [of example_lib example_signals "[1, 1, 1]" 32 1 3 0 3 row example_window features]
    r f ch
  show ?thesis by blast
qed

text \<open>
  The claim as stated fails: the schema has 45 names, and the row that the training path
  emits for the example window has 46 columns.
\<close>

theorem schema_41_counterexample:
  "length order \<noteq> 41
   \<and> (\<exists>row. window_row example_lib example_signals [1, 1, 1] 32 1 3 (0, 3) = Inr (Some row)
         \<and> length (train_columns row) = 46 \<and> length (train_X_columns row) = 45)"
proof -
  obtain row where r:
    "window_row example_lib example_signals [1, 1, 1] 32 1 3 (0, 3) = Inr (Some row)"
    using example_train_row by blast
  then have c: "train_columns row = schema @ [''label'']"
    by (rule train_row_columns) (rule example_channels)+
  have l: "length schema = 45" by (simp add: schema_def column_defs)
  have "train_X_columns row = schema"
    using c schema_no_label by (auto simp: train_X_columns_def filter_id_conv)
  with r c l show ?thesis by (auto simp: order_def)
qed

subsection \<open>The validity gate\<close>

lemma valid_iff: "valid arr \<longleftrightarrow> \<not> invalid_slice arr"
  by (auto simp: valid_def invalid_slice_def np_std_f_def np_std_def split: option.splits)




lemma eda_features_valid:
  "eda_features lib sr signals start end row = Inr (Some r) \<Longrightarrow>
   map_of signals ''EDA'' = Some ch \<Longrightarrow> valid (py_slice ch start end)"
  by (auto simp: eda_features_def Let_def split: if_splits)












subsection \<open>Conventions of the distributional summary\<close>


lemma pd_std_sample: "2 \<le> length xs \<Longrightarrow> pd_std xs = Num (sample_std xs)"
  by (simp add: pd_std_def sample_std_def)

lemma np_std_population: "xs \<noteq> [] \<Longrightarrow> np_std xs = Num (population_std xs)"
  by (simp add: np_std_def population_std_def)

lemma sample_std_neq_population:
  assumes "2 \<le> length xs" and "dev_sum 2 xs \<noteq> 0"
  shows "sample_std xs \<noteq> population_std xs"
proof
  assume "sample_std xs = population_std xs"
  then have "dev_sum 2 xs / (real (length xs) - 1) = dev_sum 2 xs / real (length xs)"
    by (simp add: sample_std_def population_std_def)
  with assms show False by (simp add: field_simps)
qed





lemma valid_nonflat:
  assumes "valid arr" and "reals_of arr = Some xs" and "xs \<noteq> []"
  shows "2 \<le> length xs \<and> dev_sum 2 xs \<noteq> 0"
proof -
  from assms have d: "dev_sum 2 xs \<noteq> 0"
    by (auto simp: valid_iff invalid_slice_def)
  have "length xs \<noteq> 1"
  proof
    assume "length xs = 1"
    then obtain x where "xs = [x]" by (cases xs) auto
    with d show False by (simp add: dev_sum_def)
  qed
  moreover have "length xs \<noteq> 0" using assms(3) by simp
  ultimately have "2 \<le> length xs" by linarith
  with d show ?thesis by simp
qed






subsection \<open>Training and inference on the same window\<close>

lemma eda_features_std:
  assumes "eda_features lib sr signals start end [] = Inr (Some r)"
    and "map_of signals ''EDA'' = Some ch" and "reals_of (py_slice ch start end) = Some eda"
  shows "map_of r ''EDA_std'' = Some (pd_std eda)"
  using assms
  by (auto simp: eda_features_def Let_def map_of_dict_update map_of_dict_set prefixed_def
        stats_dict_def split: option.splits if_splits sum.splits)

lemma summary_assignments_lookup:
  assumes "summary_assignments p a row = Inr row'"
    and "k \<notin> set (map ((@) p) [''mean'', ''std'', ''min'', ''max'', ''median'', ''skew'', ''kurt''])"
  shows "map_of row' k = map_of row k"
  using assms
  by (auto simp: summary_assignments_def bind_err_Inr_iff Let_def map_of_dict_set)

lemma summary_assignments_std:
  assumes "summary_assignments p a row = Inr row'"
  shows "map_of row' (p @ ''std'') = Some (np_std a) \<and> a \<noteq> []"
  using assms
  by (auto simp: summary_assignments_def bind_err_Inr_iff Let_def map_of_dict_set np_min_def
        split: list.splits)

lemma hrv_infer_lookup:
  assumes "hrv_infer lib peaks row = Inr row'"
    and "k \<notin> set [''HR_mean'', ''HRV_SDNN'', ''HRV_RMSSD'', ''HRV_pNN50'', ''HRV_LF'',
           ''HRV_HF'', ''HRV_LFHF'']"
  shows "map_of row' k = map_of row k"
proof (cases "length peaks > 1")
  case True
  with assms show ?thesis
    by (auto simp: hrv_infer_def bind_err_Inr_iff Let_def map_of_dict_set)
next
  case False
  with assms show ?thesis
    by (auto simp: hrv_infer_def map_of_dict_set)
qed

lemma infer_eda_std:
  assumes "infer_eda lib signals [] = Inr r" and "map_of signals ''EDA'' = Some eda"
  shows "map_of r ''EDA_std'' = Some (np_std eda) \<and> eda \<noteq> []"
proof -
  from assms obtain r0 where
    r0: "summary_assignments ''EDA_'' eda [] = Inr r0"
    by (auto simp: infer_eda_def bind_err_Inr_iff dict_get_def)
  from assms r0 have "map_of r ''EDA_std'' = map_of r0 ''EDA_std''"
    by (auto simp: infer_eda_def bind_err_Inr_iff dict_get_def Let_def map_of_dict_set
          split: option.splits)
  with summary_assignments_std [OF r0] show ?thesis by simp
qed

lemma infer_temp_eda_std:
  assumes "infer_temp signals row = Inr row'"
  shows "map_of row' ''EDA_std'' = map_of row ''EDA_std''"
proof -
  from assms obtain temp r0 where
    "summary_assignments ''TEMP_'' temp row = Inr r0"
    "map_of row' ''EDA_std'' = map_of r0 ''EDA_std''"
    by (auto simp: infer_temp_def bind_err_Inr_iff map_of_dict_set split: if_splits)
  then show ?thesis by (simp add: summary_assignments_lookup)
qed

lemma infer_acc_eda_std:
  assumes "infer_acc signals row = Inr row'"
  shows "map_of row' ''EDA_std'' = map_of row ''EDA_std''"
proof -
  from assms obtain mag r0 where
    "summary_assignments ''ACC_mag_'' mag row = Inr r0"
    "map_of row' ''EDA_std'' = map_of r0 ''EDA_std''"
    by (auto simp: infer_acc_def bind_err_Inr_iff Let_def map_of_dict_set)
  then show ?thesis by (simp add: summary_assignments_lookup)
qed

lemma infer_bvp_eda_std:
  assumes "infer_bvp lib signals row = Inr row'"
  shows "map_of row' ''EDA_std'' = map_of row ''EDA_std''"
proof -
  from assms obtain bvp r0 peaks where
    "summary_assignments ''BVP_'' bvp row = Inr r0" "hrv_infer lib peaks r0 = Inr row'"
    by (auto simp: infer_bvp_def bind_err_Inr_iff split: option.splits)
  then show ?thesis by (simp add: summary_assignments_lookup hrv_infer_lookup)
qed

lemma train_row_eda_std:
  assumes "window_row lib signals chest_labels sr scale chest_len (start, end) = Inr (Some row)"
    and "map_of signals ''EDA'' = Some ch" and "reals_of (py_slice ch start end) = Some eda"
  shows "map_of row ''EDA_std'' = Some (pd_std eda) \<and> valid (py_slice ch start end)"
proof -
  from assms(1) obtain r1 r2 r3 r4 where
    s: "eda_features lib sr signals start end [] = Inr (Some r1)"
       "temp_features signals start end r1 = Inr (Some r2)"
       "acc_features signals start end r2 = Inr (Some r3)"
       "bvp_features lib signals start end r3 = Inr (Some r4)"
       "label_alignment chest_labels scale chest_len start end r4 = Inr (Some row)"
    by (rule window_row_stages)
  have "map_of row ''EDA_std'' = map_of r4 ''EDA_std''"
    using s(5) by (rule label_alignment_lookup) simp
  also have "\<dots> = map_of r3 ''EDA_std''" using s(4) by (rule bvp_features_other) simp
  also have "\<dots> = map_of r2 ''EDA_std''" using s(3) by (rule acc_features_other) simp
  also have "\<dots> = map_of r1 ''EDA_std''" using s(2) by (rule temp_features_other) simp
  also have "\<dots> = Some (pd_std eda)" using s(1) assms(2,3) by (rule eda_features_std)
  finally show ?thesis using s(1) assms(2) eda_features_valid by blast
qed

lemma infer_row_eda_std:
  assumes "extract_features_window lib signals = Inr row"
    and "map_of signals ''EDA'' = Some eda"
  shows "map_of row ''EDA_std'' = Some (np_std eda) \<and> eda \<noteq> []"
proof -
  from assms(1) obtain r1 r2 r3 where
    s: "infer_eda lib signals [] = Inr r1" "infer_temp signals r1 = Inr r2"
       "infer_acc signals r2 = Inr r3" "infer_bvp lib signals r3 = Inr row"
    by (rule extract_features_window_stages)
  have "map_of row ''EDA_std'' = map_of r1 ''EDA_std''"
    using s(2-4) by (simp add: infer_temp_eda_std infer_acc_eda_std infer_bvp_eda_std)
  with infer_eda_std [OF s(1) assms(2)] show ?thesis by simp
qed

text \<open>
  Claim C1 does not hold on the code. Whenever the training path emits a row for a window and
  the inference path returns a row for the same EDA slice, the two \<open>EDA_std\<close> values are the
  sample and the population standard deviation of that slice, and they are different: the
  shared feature \<open>EDA_std\<close> never agrees between the two paths.
\<close>

theorem train_serve_std_mismatch:
  assumes "window_row lib signals chest_labels sr scale chest_len (start, end) = Inr (Some rt)"
    and "map_of signals ''EDA'' = Some ch"
    and "reals_of (py_slice ch start end) = Some eda"
    and "extract_features_window lib' isignals = Inr ri"
    and "map_of isignals ''EDA'' = Some eda"
  shows "map_of rt ''EDA_std'' = Some (Num (sample_std eda))
       \<and> map_of ri ''EDA_std'' = Some (Num (population_std eda))
       \<and> map_of rt ''EDA_std'' \<noteq> map_of ri ''EDA_std''"
proof -
  have t: "map_of rt ''EDA_std'' = Some (pd_std eda)" and v: "valid (py_slice ch start end)"
    using train_row_eda_std [OF assms(1-3)] by simp_all
  have i: "map_of ri ''EDA_std'' = Some (np_std eda)" and ne: "eda \<noteq> []"
    using infer_row_eda_std [OF assms(4,5)] by simp_all
  from v assms(3) ne have n: "2 \<le> length eda" "dev_sum 2 eda \<noteq> 0"
    using valid_nonflat by blast+
  then have "sample_std eda \<noteq> population_std eda" by (rule sample_std_neq_population)
  with t i n ne show ?thesis by (simp add: pd_std_sample np_std_population)
qed

theorem train_serve_std_mismatch_witness:
  "\<exists>rt ri.
     window_row example_lib example_signals [1, 1, 1] 32 1 3 (0, 3) = Inr (Some rt)
     \<and> map_of example_signals ''EDA'' = Some (map Num [1, 2, 4])
     \<and> reals_of (py_slice (map Num [1, 2, 4]) 0 3) = Some [1, 2, 4]
     \<and> extract_features_window example_lib example_window = Inr ri
     \<and> map_of example_window ''EDA'' = Some [1, 2, 4]
     \<and> map_of rt ''EDA_std'' = Some (Num (sample_std [1, 2, 4]))
     \<and> map_of ri ''EDA_std'' = Some (Num (population_std [1, 2, 4]))
     \<and> map_of rt ''EDA_std'' \<noteq> map_of ri ''EDA_std''"
proof -
  obtain rt where
    rt: "window_row example_lib example_signals [1, 1, 1] 32 1 3 (0, 3) = Inr (Some rt)"
    using example_train_row by blast
  obtain ri where ri: "extract_features_window example_lib example_window = Inr ri"
    using example_infer_row by blast
  have s: "reals_of (py_slice (map Num [1, 2, 4]) 0 3) = Some [1, 2, 4]"
    by (simp add: py_slice_def)
  have w: "map_of example_window ''EDA'' = Some [1, 2, 4]"
    by (simp add: example_window_def)
  from train_serve_std_mismatch [OF rt example_channels(1) s ri w] rt ri s w example_channels(1)
  show ?thesis by blast
qed

end
